theory Spec2Isabelle
  imports Complex_Main "HOL-Library.Sublist"
begin

chapter \<open>The model\<close>

section \<open>Shared types of the dashboard (data/types.ts)\<close>

text \<open>
  A finite JavaScript number is modelled as the real number it denotes, a string as
  \<open>string\<close> (the UTF-8 bytes of the text).  Of the interface \<open>AnalysisData\<close> the record below keeps every field that
  carries a branch name; the remaining fields (KPI cards, leak cards, menu products,
  forecast points, action plan, ...) are presentation data that no function modelled
  here reads.
\<close>

record BranchRanking =
  rank :: nat
  name :: string
  revenue :: string

record ModifierAttachRate =
  branch :: string
  rate :: real

record BranchForecast =
  fc_branch :: string
  projected :: string
  growth :: string

record ClusterDef =
  cluster_name :: string
  branches :: "string list"

text \<open>\<open>BranchMonthlyMap = Record<string, number[]>\<close>: an object literal, kept as an
  association list in source order; a property read is \<open>map_of\<close>.\<close>

type_synonym BranchMonthlyMap = "(string \<times> real list) list"

record AnalysisData =
  topBranches :: "BranchRanking list"
  bottomBranches :: "BranchRanking list"
  heatmapBranches :: "string list"
  branchMonthly :: BranchMonthlyMap
  modifierAttachRates :: "ModifierAttachRate list"
  topForecasts :: "BranchForecast list"
  clusters :: "ClusterDef list"

section \<open>The default dataset (data/defaultData.ts)\<close>

definition DEFAULT_DATA :: AnalysisData where
  "DEFAULT_DATA = \<lparr>
    topBranches = [
      \<lparr>rank = 1, name = ''Ain El Mreisseh'', revenue = ''119.6M''\<rparr>,
      \<lparr>rank = 2, name = ''Zalka'', revenue = ''108.0M''\<rparr>,
      \<lparr>rank = 3, name = ''Khaldeh'', revenue = ''84.2M''\<rparr>,
      \<lparr>rank = 4, name = ''Ramlet El Bayda'', revenue = ''56.1M''\<rparr>,
      \<lparr>rank = 5, name = ''Saida'', revenue = ''55.0M''\<rparr>],
    bottomBranches = [
      \<lparr>rank = 21, name = ''Unknown (Closed)'', revenue = ''13.9M''\<rparr>,
      \<lparr>rank = 22, name = ''Faqra'', revenue = ''11.0M''\<rparr>,
      \<lparr>rank = 23, name = ''Raouche'', revenue = ''9.1M''\<rparr>,
      \<lparr>rank = 24, name = ''Kaslik'', revenue = ''5.6M''\<rparr>,
      \<lparr>rank = 25, name = ''Event Starco'', revenue = ''0.6M''\<rparr>],
    heatmapBranches = [
      ''Ain El Mreisseh'', ''Zalka'', ''Khaldeh'', ''Ramlet El Bayda'', ''Saida'',
      ''Batroun'', ''Bayada'', ''Le Mall'', ''Airport'', ''Centro Mall'',
      ''Bir Hasan'', ''Antelias'', ''Aley''],
    branchMonthly = [
      (''Ain El Mreisseh'', [12648547, 9929973, 9849927, 13025923, 7208975, 2883403, 11889329, 11610098, 11021124, 10516784, 9387783, 9640996]),
      (''Zalka'', [10449007, 8417640, 10840107, 11182530, 6433973, 2504900, 10265530, 10774439, 9882170, 9775940, 8876666, 8566292]),
      (''Khaldeh'', [7468155, 6108429, 6420841, 8455732, 4487118, 2262395, 9464292, 10661996, 7859844, 7348415, 6744352, 6874043]),
      (''Ramlet El Bayda'', [0, 1570807, 3588563, 6011885, 3542743, 1445760, 7427540, 7668110, 6585103, 6435859, 5863676, 5944644]),
      (''Saida'', [7263332, 5121351, 4684911, 6361154, 3010782, 1323360, 5939826, 5925561, 4245092, 3639435, 3665841, 3825644]),
      (''Batroun'', [4266517, 3388117, 4890198, 5516882, 2963980, 1311240, 6135003, 6751770, 5041151, 4372226, 4272668, 5163712]),
      (''Bayada'', [4497377, 3419107, 5083387, 5196907, 3043400, 1208190, 5448610, 5613039, 4917258, 5224336, 4588470, 4403458]),
      (''Le Mall'', [3881015, 3772587, 4220770, 4428620, 2163877, 967783, 4986426, 5452826, 4201889, 3807124, 3984059, 5003541]),
      (''Airport'', [0, 0, 0, 0, 0, 8429, 2940003, 6963426, 7467198, 8414673, 7029720, 6604829]),
      (''Centro Mall'', [3264533, 2944807, 2218467, 3937167, 1955287, 924383, 4201340, 4307333, 3232538, 3059646, 3497555, 3998663]),
      (''Bir Hasan'', [3355705, 2842994, 2266051, 3459980, 2125379, 744638, 3799740, 3783898, 3255936, 3128529, 2851287, 2743088]),
      (''Antelias'', [2615854, 2139011, 3162717, 3391741, 2033636, 728978, 2963697, 3182364, 2909965, 2715153, 2551353, 2234760]),
      (''Aley'', [0, 0, 0, 0, 0, 0, 4219345, 8565845, 5397296, 4503168, 4071091, 3739481])],
    modifierAttachRates = [
      \<lparr>branch = ''Verdun'', rate = 60.4\<rparr>,
      \<lparr>branch = ''Bir Hasan'', rate = 53.0\<rparr>,
      \<lparr>branch = ''Antelias'', rate = 43.2\<rparr>,
      \<lparr>branch = ''Raouche'', rate = 42.0\<rparr>,
      \<lparr>branch = ''Sour 2'', rate = 41.1\<rparr>,
      \<lparr>branch = ''Ramlet El Bayda'', rate = 40.6\<rparr>,
      \<lparr>branch = ''Khaldeh'', rate = 39.3\<rparr>,
      \<lparr>branch = ''LAU'', rate = 38.8\<rparr>,
      \<lparr>branch = ''Saida'', rate = 35.7\<rparr>,
      \<lparr>branch = ''Ain El Mreisseh'', rate = 30.0\<rparr>,
      \<lparr>branch = ''Zalka'', rate = 24.8\<rparr>],
    topForecasts = [
      \<lparr>fc_branch = ''Ain El Mreisseh'', projected = ''86.8M'', growth = ''-27%''\<rparr>,
      \<lparr>fc_branch = ''Sin El Fil'', projected = ''84.5M'', growth = ''+310%''\<rparr>,
      \<lparr>fc_branch = ''Zalka'', projected = ''80.1M'', growth = ''-26%''\<rparr>,
      \<lparr>fc_branch = ''Amioun'', projected = ''75.2M'', growth = ''+285%''\<rparr>,
      \<lparr>fc_branch = ''Khaldeh'', projected = ''72.8M'', growth = ''-14%''\<rparr>],
    clusters = [
      \<lparr>cluster_name = ''Cash Cows'',
       branches = [''Ain El Mreisseh'', ''Zalka'', ''Khaldeh'']\<rparr>,
      \<lparr>cluster_name = ''Established'',
       branches = [''Batroun'', ''Bayada'', ''Le Mall'', ''Centro Mall'', ''Bir Hasan'',
         ''Antelias'', ''Saida'', ''Verdun'', ''Sin El Fil'', ''Amioun'', ''LAU'',
         ''Unknown (Closed)'', ''Faqra'']\<rparr>,
      \<lparr>cluster_name = ''Growth Engines'',
       branches = [''Airport'', ''Ramlet El Bayda'', ''Aley'', ''Mansourieh'', ''Jbeil'',
         ''Sour 2'', ''Raouche'', ''Kaslik'']\<rparr>,
      \<lparr>cluster_name = ''Event/Specialty'',
       branches = [''Event Starco'']\<rparr>]
  \<rparr>"

section \<open>The data-context reducer (context/DataContext.tsx)\<close>

datatype Source = SrcDefault | SrcUploaded | SrcProcessing

record DataState =
  data :: AnalysisData
  isLoading :: bool
  error :: "string option"
  source :: Source

text \<open>
  \<open>DataAction\<close> is a union of four tagged objects.  The reducer's \<open>switch\<close> also has a
  \<open>default:\<close> branch, reached by any action whose \<open>type\<close> is none of the four;
  \<open>OTHER t\<close> stands for such an action.
\<close>

datatype DataAction =
    SET_LOADING
  | SET_DATA AnalysisData
  | SET_ERROR string
  | RESET
  | OTHER string

fun dataReducer :: "DataState \<Rightarrow> DataAction \<Rightarrow> DataState" where
  "dataReducer state SET_LOADING =
     state\<lparr>isLoading := True, error := None, source := SrcProcessing\<rparr>"
| "dataReducer state (SET_DATA payload) =
     \<lparr>data = payload, isLoading = False, error = None, source = SrcUploaded\<rparr>"
| "dataReducer state (SET_ERROR payload) =
     state\<lparr>isLoading := False, error := Some payload,
       source := (if source state = SrcProcessing then SrcDefault else source state)\<rparr>"
| "dataReducer state RESET =
     \<lparr>data = DEFAULT_DATA, isLoading = False, error = None, source = SrcDefault\<rparr>"
| "dataReducer state (OTHER t) = state"

text \<open>The provider's initial state.\<close>

definition initial_state :: DataState where
  "initial_state = \<lparr>data = DEFAULT_DATA, isLoading = False, error = None, source = SrcDefault\<rparr>"

section \<open>Backend calls (lib/api.ts)\<close>

text \<open>
  A rejected promise or a thrown \<open>Error\<close> is the value \<open>Inl m\<close>, with \<open>m\<close> the error's
  \<open>message\<close>.  What the network does is the environment of the call: the exchange the
  \<open>fetch\<close> turns out to be is an argument of the model.
\<close>

datatype HealthExchange =
    HealthRejected string   \<comment> \<open>\<open>fetch\<close> rejects: network failure, or the 3 s abort signal\<close>
  | HealthResponse bool     \<comment> \<open>a response, with its \<open>ok\<close> flag\<close>

fun checkBackendHealth :: "HealthExchange \<Rightarrow> string + bool" where
  "checkBackendHealth (HealthResponse response_ok) = Inr response_ok"
| "checkBackendHealth (HealthRejected m) = Inr False"

datatype UploadExchange =
    FetchRejected string                  \<comment> \<open>\<open>fetch\<close> rejects\<close>
  | ResponseNotOk "string + string"       \<comment> \<open>\<open>!response.ok\<close>, with what \<open>response.text()\<close> gives\<close>
  | ResponseOk "string + AnalysisData"    \<comment> \<open>\<open>response.ok\<close>, with what \<open>response.json()\<close> gives\<close>

fun uploadAndAnalyze :: "UploadExchange \<Rightarrow> string + AnalysisData" where
  "uploadAndAnalyze (FetchRejected m) = Inl m"
| "uploadAndAnalyze (ResponseNotOk (Inl m)) = Inl m"
| "uploadAndAnalyze (ResponseNotOk (Inr errorText)) = Inl (''Upload failed: '' @ errorText)"
| "uploadAndAnalyze (ResponseOk (Inl m)) = Inl m"
| "uploadAndAnalyze (ResponseOk (Inr result)) = Inr result"

section \<open>The upload page (pages/UploadPage.tsx)\<close>

subsection \<open>Matching file names against the report codes\<close>

text \<open>
  \<open>/00014/i.test(name)\<close>: the pattern is a literal, so the test is a substring search
  in which two characters match when their canonical (upper-case) forms agree.
\<close>

definition canonicalize :: "char \<Rightarrow> char" where
  "canonicalize c =
     (let n = (of_char c :: nat) in if 97 \<le> n \<and> n \<le> 122 then char_of (n - 32) else c)"

definition regex_test :: "string \<Rightarrow> string \<Rightarrow> bool" where
  "regex_test pat s = sublist (map canonicalize pat) (map canonicalize s)"

record ExpectedFile =
  pattern :: string
  label :: string
  key :: string

definition EXPECTED_FILES :: "ExpectedFile list" where
  "EXPECTED_FILES = [
     \<lparr>pattern = ''00014'', label = ''Product Profitability'', key = ''product_profitability''\<rparr>,
     \<lparr>pattern = ''00134'', label = ''Category Summary'', key = ''category_summary''\<rparr>,
     \<lparr>pattern = ''00191'', label = ''Product Group'', key = ''product_group''\<rparr>,
     \<lparr>pattern = ''00673'', label = ''Branch Monthly'', key = ''branch_monthly''\<rparr>]"

record File =
  file_name :: string
  file_size :: nat

datatype FileStatus = StPending | StMatched | StError

record FileEntry =
  file_of :: File
  matched :: "string option"
  status :: FileStatus

datatype ProcessingState = Idle | Checking | Uploading | Processing | Done | Error

definition matchFiles :: "File list \<Rightarrow> FileEntry list" where
  "matchFiles incoming =
     map (\<lambda>f.
       let match = find (\<lambda>ef. regex_test (pattern ef) (file_name f)) EXPECTED_FILES
       in \<lparr>file_of = f,
           matched = (case match of Some ef \<Rightarrow> Some (label ef) | None \<Rightarrow> None),
           status = (case match of Some ef \<Rightarrow> StMatched | None \<Rightarrow> StError)\<rparr>) incoming"

text \<open>
  The page's state variables.  \<open>error_msg\<close> is the variable \<open>error\<close> of the page (the
  field \<open>error\<close> is the data context's).
\<close>

record UploadPageState =
  files :: "FileEntry list"
  processing :: ProcessingState
  error_msg :: "string option"
  backendOnline :: "bool option"

text \<open>\<open>onDrop\<close>: the dropped files whose name ends in \<open>.csv\<close> are matched and replace
  the list, unless there is none; the other files are discarded.\<close>

definition onDrop :: "File list \<Rightarrow> UploadPageState \<Rightarrow> UploadPageState" where
  "onDrop dropped st =
     (let droppedFiles = filter (\<lambda>f. suffix ''.csv'' (file_name f)) dropped
      in if length droppedFiles > 0 then st\<lparr>files := matchFiles droppedFiles\<rparr> else st)"

text \<open>\<open>onFileSelect\<close> filters and matches the selected files in the same way (it also
  clears the input element, which holds no state of the page).\<close>

definition onFileSelect :: "File list \<Rightarrow> UploadPageState \<Rightarrow> UploadPageState" where
  "onFileSelect selected st =
     (let selectedFiles = filter (\<lambda>f. suffix ''.csv'' (file_name f)) selected
      in if length selectedFiles > 0 then st\<lparr>files := matchFiles selectedFiles\<rparr> else st)"

text \<open>The page's state when it is first shown (the \<open>useState\<close> defaults).\<close>

definition initial_page :: UploadPageState where
  "initial_page = \<lparr>files = [], processing = Idle, error_msg = None, backendOnline = None\<rparr>"

definition matchedCount :: "FileEntry list \<Rightarrow> nat" where
  "matchedCount fs = length (filter (\<lambda>f. status f = StMatched) fs)"

definition allMatched :: "FileEntry list \<Rightarrow> bool" where
  "allMatched fs = (matchedCount fs = 4)"

text \<open>The \<open>disabled\<close> attribute of the run button.\<close>

definition run_disabled :: "UploadPageState \<Rightarrow> bool" where
  "run_disabled st =
     (\<not> allMatched (files st) \<or> processing st = Uploading \<or> processing st = Processing)"

text \<open>The claim's wording: the name contains one of the four report codes.\<close>

definition contains_report_code :: "string \<Rightarrow> bool" where
  "contains_report_code n =
     (sublist ''00014'' n \<or> sublist ''00134'' n \<or> sublist ''00191'' n \<or> sublist ''00673'' n)"

subsection \<open>Running the analysis\<close>

definition offline_message :: string where
  "offline_message =
     ''Backend offline '' @ [CHR 0xE2, CHR 0x80, CHR 0x94] @
     '' client-side analysis not yet available. Deploy the Flask backend for full processing.''"

text \<open>
  \<open>runAnalysis\<close>, with every \<open>setX\<close> call as a state update in source order and
  \<open>dispatch\<close> as one reducer step.  The result is \<open>Inl\<close> when an exception leaves the
  function.  The health check stands outside the \<open>try\<close> blocks; in the off-line branch
  the awaited timer promise only ever resolves.
\<close>

definition runAnalysis ::
  "HealthExchange \<Rightarrow> UploadExchange \<Rightarrow> UploadPageState \<times> DataState
     \<Rightarrow> string + UploadPageState \<times> DataState" where
  "runAnalysis health upload = (\<lambda>(st, ds).
     let st1 = st\<lparr>error_msg := None\<rparr>;
         st2 = st1\<lparr>processing := Checking\<rparr>
     in case checkBackendHealth health of
          Inl e \<Rightarrow> Inl e
        | Inr isOnline \<Rightarrow>
            let st3 = st2\<lparr>backendOnline := Some isOnline\<rparr>
            in if isOnline then
                 (let st4 = st3\<lparr>processing := Uploading\<rparr>;
                      st5 = st4\<lparr>processing := Processing\<rparr>
                  in case uploadAndAnalyze upload of
                       Inr result \<Rightarrow>
                         Inr (st5\<lparr>processing := Done\<rparr>, dataReducer ds (SET_DATA result))
                     | Inl message \<Rightarrow>
                         Inr (st5\<lparr>error_msg :=
                                   Some (if message = [] then ''Backend analysis failed''
                                         else message),
                                 processing := Error\<rparr>, ds))
               else
                 (let st4 = st3\<lparr>processing := Processing\<rparr>
                  in Inr (st4\<lparr>error_msg := Some offline_message, processing := Error\<rparr>, ds)))"

subsection \<open>Digit characters\<close>

definition is_digit :: "char \<Rightarrow> bool" where
  "is_digit c = (48 \<le> (of_char c :: nat) \<and> (of_char c :: nat) \<le> 57)"

subsection \<open>Example files\<close>

definition demo_files :: "File list" where
  "demo_files = [
     \<lparr>file_name = ''rep_s_00014_SMRY.csv'', file_size = 1\<rparr>,
     \<lparr>file_name = ''REP_S_00134_SMRY.csv'', file_size = 2\<rparr>,
     \<lparr>file_name = ''rep_s_00191_SMRY-3.csv'', file_size = 3\<rparr>,
     \<lparr>file_name = ''rep_s_00673_SMRY.csv'', file_size = 4\<rparr>]"

definition demo_page :: UploadPageState where
  "demo_page =
     \<lparr>files = matchFiles demo_files, processing = Idle, error_msg = None,
      backendOnline = None\<rparr>"

section \<open>The heat-map normaliser (pages/DashboardPage.tsx, components/SeasonalityTrends.tsx)\<close>

text \<open>
  The values a numeric expression of this function can take: a finite number, \<open>NaN\<close>, or
  an infinity (of either sign).  \<open>Math.max()\<close> of no arguments is \<open>-Infinity\<close>; dividing a
  non-zero number by zero gives an infinity, zero by zero \<open>NaN\<close>; an \<open>undefined\<close> operand
  (an index out of range) gives \<open>NaN\<close>.  A finite double is the real number it denotes.
  \<open>Math.max\<close> and the comparison with 0 are exact on doubles; the division is not, so the
  division of two finite doubles by a non-zero divisor is the argument \<open>fdiv\<close> of the
  model (it rounds, and may overflow to an infinity), and \<open>exact_div\<close> is the instance
  without rounding.
\<close>

datatype jsnum = Fin real | NaN | Infinite

datatype js_error = TypeError

fun Math_max :: "real list \<Rightarrow> jsnum" where
  "Math_max [] = Infinite"
| "Math_max (x # xs) = (case Math_max xs of Fin m \<Rightarrow> Fin (max x m) | _ \<Rightarrow> Fin x)"

text \<open>\<open>raw[i]\<close>: \<open>undefined\<close> out of range.\<close>

definition index :: "real list \<Rightarrow> nat \<Rightarrow> real option" where
  "index raw i = (if i < length raw then Some (raw ! i) else None)"

fun js_div :: "(real \<Rightarrow> real \<Rightarrow> jsnum) \<Rightarrow> real option \<Rightarrow> jsnum \<Rightarrow> jsnum" where
  "js_div fdiv None d = NaN"
| "js_div fdiv (Some x) (Fin y) =
     (if y = 0 then (if x = 0 then NaN else Infinite) else fdiv x y)"
| "js_div fdiv (Some x) Infinite = Fin 0"
| "js_div fdiv (Some x) NaN = NaN"

definition exact_div :: "real \<Rightarrow> real \<Rightarrow> jsnum" where
  "exact_div x y = Fin (x / y)"

text \<open>
  The property read \<open>obj[key]\<close> on a plain object (an object literal, or what
  \<open>JSON.parse\<close> returns): the object's own property if it has one, else the member of
  that name inherited from \<open>Object.prototype\<close>, else \<open>undefined\<close>.  The inherited members
  are functions (for \<open>__proto__\<close>, the prototype object): truthy, and not iterable.
\<close>

definition object_prototype_keys :: "string list" where
  "object_prototype_keys =
     [''constructor'', ''hasOwnProperty'', ''isPrototypeOf'', ''propertyIsEnumerable'',
      ''toLocaleString'', ''toString'', ''valueOf'', ''__proto__'',
      ''__defineGetter__'', ''__defineSetter__'', ''__lookupGetter__'', ''__lookupSetter__'']"

datatype jsprop = Own "real list" | Inherited | Undefined

definition property_read :: "(string \<rightharpoonup> real list) \<Rightarrow> string \<Rightarrow> jsprop" where
  "property_read obj k =
     (case obj k of
        Some raw \<Rightarrow> Own raw
      | None \<Rightarrow> if k \<in> set object_prototype_keys then Inherited else Undefined)"

text \<open>The same function body stands in both components; \<open>bm\<close> holds the own properties of
  the object it reads (\<open>data.branchMonthly\<close>, or the constant \<open>branchMonthlyRaw\<close>).  An
  inherited member passes the test \<open>!raw\<close>, and spreading it in \<open>Math.max(...raw)\<close> throws
  a \<open>TypeError\<close>.\<close>

definition getHeatValue ::
  "(real \<Rightarrow> real \<Rightarrow> jsnum) \<Rightarrow> (string \<rightharpoonup> real list) \<Rightarrow> string \<Rightarrow> nat \<Rightarrow> js_error + jsnum" where
  "getHeatValue fdiv bm b monthIndex =
     (case property_read bm b of
        Undefined \<Rightarrow> Inr (Fin 0)
      | Inherited \<Rightarrow> Inl TypeError
      | Own raw \<Rightarrow>
          let mx = Math_max raw
          in if mx = Fin 0 then Inr (Fin 0)
             else Inr (js_div fdiv (index raw monthIndex) mx))"

definition branchMonthlyRaw :: "string \<rightharpoonup> real list" where
  "branchMonthlyRaw = map_of (branchMonthly DEFAULT_DATA)"

section \<open>The rule-based chat replies (components/ChatWidget.tsx, pages/ChatPage.tsx)\<close>

text \<open>
  Texts are kept as their UTF-8 bytes, one source line of the text per row; a byte that is
  not printable ASCII (and each quote character) is written \<open>CHR 0x..\<close>, so \<open>CHR 0x0A\<close>
  is the line break.  \<open>s.includes(k)\<close> is the substring test.
  \<open>String.prototype.toLowerCase\<close> belongs to the host, not to this program: it is the
  argument \<open>toLowerCase\<close> of the two functions, and \<open>ascii_lower\<close> is the instance used to
  run them on ASCII input.
\<close>

definition js_includes :: "string \<Rightarrow> string \<Rightarrow> bool" where
  "js_includes s k = sublist k s"

definition ascii_lower :: "string \<Rightarrow> string" where
  "ascii_lower =
     map (\<lambda>c. let n = (of_char c :: nat)
              in if 65 \<le> n \<and> n \<le> 90 then char_of (n + 32) else c)"

subsection \<open>\<open>generateResponse\<close> (ChatWidget.tsx)\<close>

definition reply_leaks :: string where
  "reply_leaks =
     ''We identified 62M in annual profit leaks across 5 categories:'' @ [CHR 0x0A] @
     [CHR 0x0A] @
     [CHR 0xE2, CHR 0x80, CHR 0xA2] @
       '' **Negative margin products**: 30.1M (1,197 items sold below cost)'' @ [CHR 0x0A] @
     [CHR 0xE2, CHR 0x80, CHR 0xA2] @ '' **Free modifiers**: 28.1M in absorbed costs'' @
       [CHR 0x0A] @
     [CHR 0xE2, CHR 0x80, CHR 0xA2] @
       '' **Cheesecake underpricing**: 2.1M gap to target margin'' @ [CHR 0x0A] @
     [CHR 0xE2, CHR 0x80, CHR 0xA2] @
       '' **Veggie Sub mispricing**: 1.7M (sold at 7/unit vs 60/unit cost)'' @ [CHR 0x0A] @
     [CHR 0xE2, CHR 0x80, CHR 0xA2] @ '' **Amioun POS error**: 49K systematic undercharging'' @
       [CHR 0x0A] @
     [CHR 0x0A] @
     ''All fixable with zero additional investment.''"

definition reply_branches :: string where
  "reply_branches =
     ''**Top 5 branches by revenue:**'' @ [CHR 0x0A] @
     [CHR 0x0A] @
     ''1. Ain El Mreisseh '' @ [CHR 0xE2, CHR 0x80, CHR 0x94] @ '' 119.6M'' @ [CHR 0x0A] @
     ''2. Zalka '' @ [CHR 0xE2, CHR 0x80, CHR 0x94] @ '' 108.0M'' @ [CHR 0x0A] @
     ''3. Khaldeh '' @ [CHR 0xE2, CHR 0x80, CHR 0x94] @ '' 84.2M'' @ [CHR 0x0A] @
     ''4. Ramlet El Bayda '' @ [CHR 0xE2, CHR 0x80, CHR 0x94] @ '' 56.1M'' @ [CHR 0x0A] @
     ''5. Saida '' @ [CHR 0xE2, CHR 0x80, CHR 0x94] @ '' 55.0M'' @ [CHR 0x0A] @
     [CHR 0x0A] @
     ''Our ML clustering grouped 25 branches into 4 segments: Cash Cows (3), Es'' @
       ''tablished (13), Growth Engines (8), and Event/Specialty (1).''"

definition reply_forecast :: string where
  "reply_forecast =
     ''Our GradientBoosting model projects **2026 revenue at 1.06B** (+26% YoY)'' @
       ''. Key drivers:'' @ [CHR 0x0A] @
     [CHR 0x0A] @
     [CHR 0xE2, CHR 0x80, CHR 0xA2] @ '' New branches ramping up (Airport, Ramlet El Bayda)'' @
       [CHR 0x0A] @
     [CHR 0xE2, CHR 0x80, CHR 0xA2] @ '' Summer peak months driving highest volumes'' @
       [CHR 0x0A] @
     [CHR 0xE2, CHR 0x80, CHR 0xA2] @ '' Sin El Fil projected +310% growth'' @ [CHR 0x0A] @
     [CHR 0x0A] @
     ''The model uses per-branch seasonal features with '' @ [CHR 0xC2, CHR 0xB1] @ ''1.5'' @
       [CHR 0xCF, CHR 0x83] @ '' confidence intervals.''"

definition reply_modifiers :: string where
  "reply_modifiers =
     ''Modifiers are a **16.9M untapped opportunity**:'' @ [CHR 0x0A] @
     [CHR 0x0A] @
     [CHR 0xE2, CHR 0x80, CHR 0xA2] @ '' Current best: Verdun at 60.4% attach rate'' @
       [CHR 0x0A] @
     [CHR 0xE2, CHR 0x80, CHR 0xA2] @ '' Worst: Zalka at 24.8%'' @ [CHR 0x0A] @
     [CHR 0xE2, CHR 0x80, CHR 0xA2] @ '' Modifier margins: 70-95%'' @ [CHR 0x0A] @
     [CHR 0xE2, CHR 0x80, CHR 0xA2] @
       '' Top margins: Yirgacheffe upgrade (95%), Drizzle toppings (90%)'' @ [CHR 0x0A] @
     [CHR 0x0A] @
     ''Strategy: POS prompts, barista training, and charging 5-10K per add-on.''"

definition reply_menu :: string where
  "reply_menu =
     ''We classified **409 products** into 4 quadrants:'' @ [CHR 0x0A] @
     [CHR 0x0A] @
     [CHR 0xE2, CHR 0xAD, CHR 0x90] @ '' **Stars (124)**: High volume + high margin '' @
       [CHR 0xE2, CHR 0x80, CHR 0x94] @ '' Iced Latte, Water, Cinnamon Roll'' @ [CHR 0x0A] @
     [CHR 0xF0, CHR 0x9F, CHR 0xA7, CHR 0xA9] @
       '' **Puzzles (81)**: Low volume + high margin '' @ [CHR 0xE2, CHR 0x80, CHR 0x94] @
       '' Iced White Mocha (87%!)'' @ [CHR 0x0A] @
     [CHR 0xF0, CHR 0x9F, CHR 0x90, CHR 0x84] @
       '' **Plowhorses (81)**: High volume + low margin '' @ [CHR 0xE2, CHR 0x80, CHR 0x94] @
       '' Black Coffee, Lazy Cake'' @ [CHR 0x0A] @
     [CHR 0xF0, CHR 0x9F, CHR 0x90, CHR 0x95] @ '' **Dogs (123)**: Low volume + low margin '' @
       [CHR 0xE2, CHR 0x80, CHR 0x94] @ '' consider removing'' @ [CHR 0x0A] @
     [CHR 0x0A] @
     ''Focus: promote Stars, market Puzzles, reprice Plowhorses, cut Dogs.''"

definition reply_season :: string where
  "reply_season =
     ''Strong seasonality patterns found:'' @ [CHR 0x0A] @
     [CHR 0x0A] @
     [CHR 0xE2, CHR 0x80, CHR 0xA2] @ '' **Peak**: August (109.4M) '' @
       [CHR 0xE2, CHR 0x80, CHR 0x94] @ '' summer drive'' @ [CHR 0x0A] @
     [CHR 0xE2, CHR 0x80, CHR 0xA2] @ '' **Trough**: June (18.4M) '' @
       [CHR 0xE2, CHR 0x80, CHR 0x94] @ '' Ramadan effect, 83% drop'' @ [CHR 0x0A] @
     [CHR 0xE2, CHR 0x80, CHR 0xA2] @ '' **Peak/Trough ratio**: 5.9'' @
       [CHR 0xC3, CHR 0x97, CHR 0x0A] @
     [CHR 0xE2, CHR 0x80, CHR 0xA2] @ '' **Recovery**: July bounces back to 89.6M'' @
       [CHR 0x0A] @
     [CHR 0x0A] @
     ''Recommendation: build a Ramadan programming strategy and staff up for Ju'' @
       ''l-Aug.''"

definition reply_default :: string where
  "reply_default =
     ''That'' @ [CHR 0x27] @ ''s a great question! I can help with:'' @ [CHR 0x0A] @
     [CHR 0x0A] @
     [CHR 0xE2, CHR 0x80, CHR 0xA2] @ '' **Margin leaks** '' @ [CHR 0xE2, CHR 0x80, CHR 0x94] @
       '' the 62M opportunity'' @ [CHR 0x0A] @
     [CHR 0xE2, CHR 0x80, CHR 0xA2] @ '' **Branch performance** '' @
       [CHR 0xE2, CHR 0x80, CHR 0x94] @ '' rankings & clusters'' @ [CHR 0x0A] @
     [CHR 0xE2, CHR 0x80, CHR 0xA2] @ '' **Menu engineering** '' @
       [CHR 0xE2, CHR 0x80, CHR 0x94] @ '' product classification'' @ [CHR 0x0A] @
     [CHR 0xE2, CHR 0x80, CHR 0xA2] @ '' **Modifiers** '' @ [CHR 0xE2, CHR 0x80, CHR 0x94] @
       '' the 16.9M upsell opportunity'' @ [CHR 0x0A] @
     [CHR 0xE2, CHR 0x80, CHR 0xA2] @ '' **Forecasting** '' @ [CHR 0xE2, CHR 0x80, CHR 0x94] @
       '' 2026 projections'' @ [CHR 0x0A] @
     [CHR 0xE2, CHR 0x80, CHR 0xA2] @ '' **Seasonality** '' @ [CHR 0xE2, CHR 0x80, CHR 0x94] @
       '' monthly patterns'' @ [CHR 0x0A] @
     [CHR 0x0A] @
     ''Try asking about any of these topics!''"

definition generateResponse :: "(string \<Rightarrow> string) \<Rightarrow> string \<Rightarrow> string" where
  "generateResponse toLowerCase input =
     (let lower = toLowerCase input in
      if js_includes lower ''margin'' \<or> js_includes lower ''leak''
         \<or> js_includes lower ''62m'' \<or> js_includes lower ''loss''
      then reply_leaks
      else if js_includes lower ''branch'' \<or> js_includes lower ''best''
              \<or> js_includes lower ''top'' \<or> js_includes lower ''perform''
      then reply_branches
      else if js_includes lower ''forecast'' \<or> js_includes lower ''2026''
              \<or> js_includes lower ''predict'' \<or> js_includes lower ''growth''
      then reply_forecast
      else if js_includes lower ''modifier'' \<or> js_includes lower ''upsell''
              \<or> js_includes lower ''gold mine'' \<or> js_includes lower ''attach''
      then reply_modifiers
      else if js_includes lower ''menu'' \<or> js_includes lower ''star''
              \<or> js_includes lower ''dog'' \<or> js_includes lower ''product''
      then reply_menu
      else if js_includes lower ''season'' \<or> js_includes lower ''ramadan''
              \<or> js_includes lower ''summer'' \<or> js_includes lower ''month''
      then reply_season
      else reply_default)"

definition generateResponse_texts :: "string list" where
  "generateResponse_texts =
     [reply_leaks, reply_branches, reply_forecast, reply_modifiers,
      reply_menu, reply_season, reply_default]"

subsection \<open>\<open>ruleFallback\<close> (ChatPage.tsx)\<close>

definition fallback_revenue :: string where
  "fallback_revenue =
     ''Total chain revenue for 2025 is **840.5M LBP**. Top branch is Ain El Mre'' @
       ''isseh at 119.6M, followed by Zalka (108.0M) and Khaldeh (84.2M). The 202'' @
       ''6 forecast projects **1.06B** (+26% YoY).''"

definition fallback_leaks :: string where
  "fallback_leaks =
     ''We identified **62M in margin leaks** across 5 categories:'' @ [CHR 0x0A] @
     ''1. Negative margin products: 30.1M (47 items sold below cost)'' @ [CHR 0x0A] @
     ''2. Free modifiers: 28.1M (oat milk, almond milk etc. at $0)'' @ [CHR 0x0A] @
     ''3. Cheesecake underpricing: 2.1M (34.4% vs 63% target)'' @ [CHR 0x0A] @
     ''4. Veggie Sub crisis: 1.7M (priced at 7 vs cost of 60)'' @ [CHR 0x0A] @
     ''5. Amioun POS error: 49K'' @ [CHR 0x0A] @
     [CHR 0x0A] @
     ''The free modifier problem exists because the POS was set up with $0 modi'' @
       ''fiers, staff aren'' @ [CHR 0x27] @
       ''t prompted to upcharge, and the chain may have used free upgrades as com'' @
       ''petitive positioning.''"

definition fallback_modifiers :: string where
  "fallback_modifiers =
     ''**28.1M/year** in free modifiers. Top offenders:'' @ [CHR 0x0A] @
     ''- ADD Oat Milk: 184K units, 7.4M cost absorbed'' @ [CHR 0x0A] @
     ''- ADD Almond Milk: 156K units, 5.5M cost absorbed'' @ [CHR 0x0A] @
     ''- ADD Decaf Shot: 143K units, 4.3M cost absorbed'' @ [CHR 0x0A] @
     [CHR 0x0A] @
     ''Recommendation: Charge 30-50% of cost for premium modifiers. Recovery po'' @
       ''tential: **8.4'' @ [CHR 0xE2, CHR 0x80, CHR 0x93] @ ''14.1M/year**.''"

definition fallback_clusters :: string where
  "fallback_clusters =
     ''KMeans clustering identified **4 segments**:'' @ [CHR 0x0A] @
     ''1. **Cash Cows** (Ain El Mreisseh, Zalka, Khaldeh) '' @ [CHR 0xE2, CHR 0x80, CHR 0x94] @
       '' Avg 104M revenue'' @ [CHR 0x0A] @
     ''2. **Established** (13 branches) '' @ [CHR 0xE2, CHR 0x80, CHR 0x94] @
       '' Avg 32M, focus on efficiency'' @ [CHR 0x0A] @
     ''3. **Growth Engines** (Airport, Ramlet El Bayda, Aley + 5) '' @
       [CHR 0xE2, CHR 0x80, CHR 0x94] @ '' +100% growth'' @ [CHR 0x0A] @
     ''4. **Event/Specialty** (Event Starco) '' @ [CHR 0xE2, CHR 0x80, CHR 0x94] @
       '' 76% margin, event-driven''"

definition fallback_forecast :: string where
  "fallback_forecast =
     ''GradientBoosting model projects **1.06B** for 2026 (+26% YoY). Key drive'' @ ''rs:'' @
       [CHR 0x0A] @
     ''- Airport branch ramping to full-year operation'' @ [CHR 0x0A] @
     ''- Sin El Fil projected at 84.5M (+310%)'' @ [CHR 0x0A] @
     ''- New branches (Aley, Mansourieh) reaching maturity''"

definition fallback_menu :: string where
  "fallback_menu =
     ''Menu engineering classified **409 products**:'' @ [CHR 0x0A] @
     ''- '' @ [CHR 0xE2, CHR 0xAD, CHR 0x90] @
       '' Stars (124): High margin + high volume (Iced Latte, Mango Yoghurt Combo'' @ '')'' @
       [CHR 0x0A] @
     ''- '' @ [CHR 0xF0, CHR 0x9F, CHR 0xA7, CHR 0xA9] @
       '' Puzzles (81): High margin, low volume '' @ [CHR 0xE2, CHR 0x80, CHR 0x94] @
       '' need marketing'' @ [CHR 0x0A] @
     ''- '' @ [CHR 0xF0, CHR 0x9F, CHR 0x90, CHR 0x8E] @
       '' Plowhorses (81): High volume, low margin '' @ [CHR 0xE2, CHR 0x80, CHR 0x94] @
       '' reprice'' @ [CHR 0x0A] @
     ''- '' @ [CHR 0xF0, CHR 0x9F, CHR 0x90, CHR 0x95] @ '' Dogs (123): Low on both '' @
       [CHR 0xE2, CHR 0x80, CHR 0x94] @ '' consider removal''"

definition fallback_default :: string where
  "fallback_default =
     ''I'' @ [CHR 0x27] @
       ''m the Stories Coffee analytics assistant. I can answer questions about:'' @
       [CHR 0x0A] @
     ''- Revenue & profitability (840M/year)'' @ [CHR 0x0A] @
     ''- Margin leaks (62M identified)'' @ [CHR 0x0A] @
     ''- Free modifier analysis (28.1M in giveaways)'' @ [CHR 0x0A] @
     ''- Menu engineering (409 products classified)'' @ [CHR 0x0A] @
     ''- Branch clustering (4 strategic segments)'' @ [CHR 0x0A] @
     ''- 2026 revenue forecast (1.06B)'' @ [CHR 0x0A] @
     [CHR 0x0A] @
     ''What would you like to know?''"

text \<open>The second argument, the analysis data, is not read.\<close>

definition ruleFallback :: "(string \<Rightarrow> string) \<Rightarrow> string \<Rightarrow> 'd \<Rightarrow> string" where
  "ruleFallback toLowerCase question dat =
     (let q = toLowerCase question in
      if js_includes q ''revenue'' \<or> js_includes q ''sales''
      then fallback_revenue
      else if js_includes q ''margin'' \<or> js_includes q ''leak''
              \<or> js_includes q ''loss''
      then fallback_leaks
      else if js_includes q ''modifier'' \<or> js_includes q ''oat''
              \<or> js_includes q ''almond''
      then fallback_modifiers
      else if js_includes q ''cluster'' \<or> js_includes q ''branch''
              \<or> js_includes q ''segment''
      then fallback_clusters
      else if js_includes q ''forecast'' \<or> js_includes q ''2026''
              \<or> js_includes q ''predict''
      then fallback_forecast
      else if js_includes q ''menu'' \<or> js_includes q ''star''
              \<or> js_includes q ''dog''
      then fallback_menu
      else fallback_default)"

definition ruleFallback_texts :: "string list" where
  "ruleFallback_texts =
     [fallback_revenue, fallback_leaks, fallback_modifiers, fallback_clusters,
      fallback_forecast, fallback_menu, fallback_default]"

section \<open>The cleaning pipeline (data_cleaning.py)\<close>

text \<open>
  The Python module that cleans the four POS exports lies outside the front end: the
  dashboard only calls it through \<open>/api/upload\<close>.  This section models its components
  from the specification (sections 3, 4 and 7); each definition is introduced by the
  sentence of the specification it follows.
\<close>

subsection \<open>Raw lines and errors\<close>

text \<open>Modelled from the spec: \<open>RawLine\<close> of \<open>data_cleaning.py\<close>, "one line of an export file
  with its originating file identity and line number (for error reporting)".\<close>

record RawLine =
  line_file :: string
  line_no :: nat
  line_text :: string

text \<open>Modelled from the spec: the error taxonomy of \<open>data_cleaning.py\<close>; structural errors
  (unterminated quote, leaf row before its required context) and value errors (a
  non-numeric monetary field), each "reported with file + line number".\<close>

datatype PipelineError =
    UnterminatedQuote string nat
  | LeafBeforeContext string nat
  | ValueError string nat

subsection \<open>Field Tokenizer\<close>

text \<open>Modelled from the spec: the quote character of the Field Tokenizer of
  \<open>data_cleaning.py\<close> (the double quote of the synthetic line \<open>A,"B, C",D\<close>).\<close>

definition quote_char :: char where
  "quote_char = CHR 0x22"

text \<open>Modelled from the spec: the Field Tokenizer of \<open>data_cleaning.py\<close>.  "A delimiter
  character appearing inside a quoted span is part of the field value, not a separator;
  a doubled quote character inside a quoted span is an escaped literal quote; an
  unterminated quote at end-of-line is an error condition".  \<open>cur\<close> is the field being
  read; \<open>None\<close> is the unterminated quote.\<close>

fun split_fields :: "char \<Rightarrow> bool \<Rightarrow> string \<Rightarrow> string \<Rightarrow> string list option" where
  "split_fields d in_quote cur [] = (if in_quote then None else Some [cur])"
| "split_fields d False cur (c # cs) =
     (if c = quote_char then split_fields d True cur cs
      else if c = d then map_option ((#) cur) (split_fields d False [] cs)
      else split_fields d False (cur @ [c]) cs)"
| "split_fields d True cur (c # cs) =
     (if c = quote_char then
        (case cs of
           [] \<Rightarrow> split_fields d False cur cs
         | c' # cs' \<Rightarrow>
             if c' = quote_char then split_fields d True (cur @ [quote_char]) cs'
             else split_fields d False cur cs)
      else split_fields d True (cur @ [c]) cs)"

text \<open>Modelled from the spec: the tokenizer's result for a raw line of
  \<open>data_cleaning.py\<close>, the error being "reported with the originating line number, not
  silently swallowed".\<close>

definition tokenize :: "char \<Rightarrow> RawLine \<Rightarrow> PipelineError + string list" where
  "tokenize d l =
     (case split_fields d False [] (line_text l) of
        None \<Rightarrow> Inl (UnterminatedQuote (line_file l) (line_no l))
      | Some fs \<Rightarrow> Inr fs)"

text \<open>Writing a field in quotes (each quote character of the value doubled) and joining
  fields with the delimiter: the inverse direction, used to state the contract.\<close>

fun escape_quotes :: "string \<Rightarrow> string" where
  "escape_quotes [] = []"
| "escape_quotes (c # cs) =
     (if c = quote_char then quote_char # quote_char # escape_quotes cs
      else c # escape_quotes cs)"

definition quote_field :: "string \<Rightarrow> string" where
  "quote_field v = quote_char # escape_quotes v @ [quote_char]"

fun join_fields :: "char \<Rightarrow> string list \<Rightarrow> string" where
  "join_fields d [] = []"
| "join_fields d [f] = f"
| "join_fields d (f # g # fs) = f @ d # join_fields d (g # fs)"

text \<open>Modelled from the spec: the synthetic line \<open>A,"B, C",D\<close> of the quoting round-trip
  property of \<open>data_cleaning.py\<close>.\<close>

definition synthetic_line :: string where
  "synthetic_line = ''A,'' @ [quote_char] @ ''B, C'' @ [quote_char] @ '',D''"

subsection \<open>Row Classifier and Hierarchy Tracker\<close>

text \<open>Modelled from the spec: \<open>HierarchyContext\<close> of \<open>data_cleaning.py\<close>, "current branch
  name (raw, pre-normalization), current service type, current category, current
  section"; \<open>None\<close> is the "unset" sentinel.\<close>

record HierarchyContext =
  ctx_branch :: "string option"
  ctx_service :: "string option"
  ctx_category :: "string option"
  ctx_section :: "string option"

text \<open>Modelled from the spec: the context of \<open>data_cleaning.py\<close> at the start of a pass
  (state \<open>AwaitingBranch\<close>), every field unset.\<close>

definition unset_context :: HierarchyContext where
  "unset_context =
     \<lparr>ctx_branch = None, ctx_service = None, ctx_category = None, ctx_section = None\<rparr>"

text \<open>Modelled from the spec: the context fields a report's schema of \<open>data_cleaning.py\<close>
  can require.\<close>

datatype ContextField = BranchField | ServiceField | CategoryField | SectionField

text \<open>Modelled from the spec: reading one field of the context of
  \<open>data_cleaning.py\<close>.\<close>

fun context_field :: "HierarchyContext \<Rightarrow> ContextField \<Rightarrow> string option" where
  "context_field ctx BranchField = ctx_branch ctx"
| "context_field ctx ServiceField = ctx_service ctx"
| "context_field ctx CategoryField = ctx_category ctx"
| "context_field ctx SectionField = ctx_section ctx"

text \<open>Modelled from the spec: the measured fields of a leaf row of \<open>data_cleaning.py\<close>
  ("quantity, unit price, total price, total cost, total profit") as read from the
  source; \<open>None\<close> is a field that did not parse as a number.\<close>

record LeafFields =
  leaf_label :: string
  leaf_quantity :: "real option"
  leaf_unit_price :: "real option"
  leaf_total_price :: "real option"
  leaf_total_cost :: "real option"
  leaf_total_profit :: "real option"

text \<open>Modelled from the spec: the row kinds of the Row Classifier of \<open>data_cleaning.py\<close>,
  "a closed sum type with one variant per hierarchy level plus leaf and noise".\<close>

datatype RowKind =
    BranchHeader string
  | ServiceHeader string
  | CategoryHeader string
  | SectionHeader string
  | Leaf LeafFields
  | Noise

text \<open>Modelled from the spec: the Hierarchy Tracker's transitions in \<open>data_cleaning.py\<close>.
  "Each header-kind row found resets the deeper context fields to unset (e.g., seeing a
  new category clears section but keeps branch and service type)"; a leaf leaves the
  context unchanged.\<close>

fun update_context :: "HierarchyContext \<Rightarrow> RowKind \<Rightarrow> HierarchyContext" where
  "update_context ctx (BranchHeader b) =
     \<lparr>ctx_branch = Some b, ctx_service = None, ctx_category = None, ctx_section = None\<rparr>"
| "update_context ctx (ServiceHeader s) =
     ctx\<lparr>ctx_service := Some s, ctx_category := None, ctx_section := None\<rparr>"
| "update_context ctx (CategoryHeader c) =
     ctx\<lparr>ctx_category := Some c, ctx_section := None\<rparr>"
| "update_context ctx (SectionHeader s) = ctx\<lparr>ctx_section := Some s\<rparr>"
| "update_context ctx (Leaf lf) = ctx"
| "update_context ctx Noise = ctx"

text \<open>Modelled from the spec: the stamping condition of \<open>data_cleaning.py\<close>, "leaf rows may
  only be stamped once all context fields required by that report's schema are set".\<close>

definition context_complete :: "ContextField list \<Rightarrow> HierarchyContext \<Rightarrow> bool" where
  "context_complete required ctx = list_all (\<lambda>f. context_field ctx f \<noteq> None) required"

subsection \<open>Branch Normalizer\<close>

text \<open>Modelled from the spec: the "Unknown/Closed" bucket of \<open>data_cleaning.py\<close>, under the
  name it has in the default dataset.\<close>

definition unknown_closed :: string where
  "unknown_closed = ''Unknown (Closed)''"

text \<open>Modelled from the spec: the lookup in the canonical table of the Branch Normalizer
  of \<open>data_cleaning.py\<close>, an "exact/case-insensitive match against the canonical
  table".\<close>

definition match_canonical :: "string list \<Rightarrow> string \<Rightarrow> string option" where
  "match_canonical canonical s =
     find (\<lambda>c. map canonicalize c = map canonicalize s) canonical"

text \<open>Modelled from the spec: the Branch Normalizer of \<open>data_cleaning.py\<close>.
  "Exact/case-insensitive match against the canonical table first; known alias variants
  map via an explicit alias table; anything unmatched maps deterministically to the
  single Unknown/Closed bucket".  The output is "one canonical branch identity": the name
  an alias stands for is itself looked up in the canonical table, and an alias whose
  target is no canonical name is unmatched.  The two tables are configuration.\<close>

definition normalize_branch :: "string list \<Rightarrow> (string \<times> string) list \<Rightarrow> string \<Rightarrow> string" where
  "normalize_branch canonical aliases raw =
     (case match_canonical canonical raw of
        Some c \<Rightarrow> c
      | None \<Rightarrow>
          (case map_of aliases raw of
             Some target \<Rightarrow>
               (case match_canonical canonical target of
                  Some c \<Rightarrow> c
                | None \<Rightarrow> unknown_closed)
           | None \<Rightarrow> unknown_closed))"

subsection \<open>Derived-Field Corrector and Table Assembler\<close>

text \<open>Modelled from the spec: a row of an output table of \<open>data_cleaning.py\<close>: the canonical
  branch, the stamped context (its branch label replaced by the canonical one, so that "no
  raw label ever leaks into output unnormalized"), the label and the measured fields,
  with \<open>TotalPrice\<close> the source's own figure and \<open>TrueRevenue\<close> the corrected one.\<close>

record OutputRow =
  out_branch :: string
  out_context :: HierarchyContext
  out_label :: string
  Quantity :: real
  UnitPrice :: real
  TotalPrice :: real
  TotalCost :: real
  TotalProfit :: real
  TrueRevenue :: real

text \<open>Modelled from the spec: what one report stream of \<open>data_cleaning.py\<close> is specialised
  by: the delimiter, the row classifier with its header signatures, the context its
  schema requires, and the canonical branch list and alias table ("supplied as static
  configuration").\<close>

record StreamConfig =
  delimiter :: char
  classify :: "string list \<Rightarrow> RowKind"
  required_context :: "ContextField list"
  canonical_branches :: "string list"
  alias_table :: "(string \<times> string) list"

text \<open>Modelled from the spec: the Derived-Field Corrector of \<open>data_cleaning.py\<close>.
  "\<open>TrueRevenue := TotalCost + TotalProfit\<close> always, superseding any Total Price-like
  field read directly from the source"; a row with a non-numeric monetary field is
  rejected (\<open>None\<close>), so that the corrected figure "is never computed from an
  already-invalid cost/profit pair".  The branch is normalised here.\<close>

definition correct_row :: "StreamConfig \<Rightarrow> HierarchyContext \<Rightarrow> LeafFields \<Rightarrow> OutputRow option" where
  "correct_row cfg ctx lf =
     (case (leaf_quantity lf, leaf_unit_price lf, leaf_total_price lf,
            leaf_total_cost lf, leaf_total_profit lf) of
        (Some qty, Some unit, Some price, Some cost, Some profit) \<Rightarrow>
          Some \<lparr>out_branch =
                  (case ctx_branch ctx of
                     None \<Rightarrow> unknown_closed
                   | Some raw \<Rightarrow>
                       normalize_branch (canonical_branches cfg) (alias_table cfg) raw),
                out_context =
                  ctx\<lparr>ctx_branch :=
                        map_option
                          (normalize_branch (canonical_branches cfg) (alias_table cfg))
                          (ctx_branch ctx)\<rparr>,
                out_label = leaf_label lf,
                Quantity = qty, UnitPrice = unit, TotalPrice = price,
                TotalCost = cost, TotalProfit = profit,
                TrueRevenue = cost + profit\<rparr>
      | _ \<Rightarrow> None)"

text \<open>Modelled from the spec: the state of one pass of \<open>data_cleaning.py\<close> over a stream:
  the hierarchy context, the table assembled so far (in encounter order), and the
  counted errors of the result object.\<close>

record StreamState =
  cur_context :: HierarchyContext
  rows :: "OutputRow list"
  structural_errors :: "PipelineError list"
  rejected_rows :: "PipelineError list"
  unknown_branch_count :: nat

text \<open>Modelled from the spec: the state of \<open>data_cleaning.py\<close> before the first line:
  unset context, empty table, no errors counted.\<close>

definition initial_stream :: StreamState where
  "initial_stream =
     \<lparr>cur_context = unset_context, rows = [], structural_errors = [], rejected_rows = [],
      unknown_branch_count = 0\<rparr>"

text \<open>Modelled from the spec: one step of the pass of \<open>data_cleaning.py\<close>: tokenize, classify,
  then update the context (header), stamp, correct and append (leaf), or discard
  (noise).  A line with a structural error "is skipped and counted, the stream
  continues"; "a leaf row encountered while required context is unset is reported as a
  structural error rather than silently stamped with partial context".\<close>

definition process_line :: "StreamConfig \<Rightarrow> RawLine \<Rightarrow> StreamState \<Rightarrow> StreamState" where
  "process_line cfg l st =
     (case tokenize (delimiter cfg) l of
        Inl e \<Rightarrow> st\<lparr>structural_errors := structural_errors st @ [e]\<rparr>
      | Inr fs \<Rightarrow>
          (case classify cfg fs of
             Noise \<Rightarrow> st
           | Leaf lf \<Rightarrow>
               if context_complete (required_context cfg) (cur_context st) then
                 (case correct_row cfg (cur_context st) lf of
                    None \<Rightarrow>
                      st\<lparr>rejected_rows :=
                           rejected_rows st @ [ValueError (line_file l) (line_no l)]\<rparr>
                  | Some r \<Rightarrow>
                      st\<lparr>rows := rows st @ [r],
                         unknown_branch_count :=
                           unknown_branch_count st
                             + (if out_branch r = unknown_closed then 1 else 0)\<rparr>)
               else
                 st\<lparr>structural_errors :=
                      structural_errors st @ [LeafBeforeContext (line_file l) (line_no l)]\<rparr>
           | header \<Rightarrow> st\<lparr>cur_context := update_context (cur_context st) header\<rparr>))"

text \<open>Modelled from the spec: the pass of \<open>data_cleaning.py\<close> over the lines of one file, in
  order.\<close>

definition clean_stream :: "StreamConfig \<Rightarrow> RawLine list \<Rightarrow> StreamState" where
  "clean_stream cfg ls = fold (process_line cfg) ls initial_stream"

subsection \<open>Cache Writer/Reader\<close>

text \<open>Modelled from the spec: a cache artifact of \<open>data_cleaning.py\<close>, readable or
  "corrupted" (which includes "partially-written").\<close>

datatype 'd artifact = Intact 'd | Corrupted

text \<open>Modelled from the spec: the cache of \<open>data_cleaning.py\<close>, "keyed by input fingerprint
  + pipeline version".\<close>

type_synonym ('f, 'd) cache = "'f \<times> nat \<rightharpoonup> 'd artifact"






text \<open>Every readable artifact holds the full parse of one of the given contents, stored
  under that content's fingerprint.\<close>

definition cache_from ::
  "('c \<Rightarrow> 'f) \<Rightarrow> (nat \<Rightarrow> 'c \<Rightarrow> 'd) \<Rightarrow> 'c list \<Rightarrow> ('f, 'd) cache \<Rightarrow> bool" where
  "cache_from fingerprint parse contents cache =
     (\<forall>f version d. cache (f, version) = Some (Intact d)
        \<longrightarrow> (\<exists>c \<in> set contents. fingerprint c = f \<and> d = parse version c))"

subsection \<open>The branch names of the default dataset\<close>

text \<open>The 25 names of the four cluster membership lists, and every branch name the
  default dataset shows.\<close>

definition default_branch_names :: "string list" where
  "default_branch_names = concat (map branches (clusters DEFAULT_DATA))"

definition default_dataset_branches :: "string list" where
  "default_dataset_branches =
     map name (topBranches DEFAULT_DATA) @ map name (bottomBranches DEFAULT_DATA)
     @ heatmapBranches DEFAULT_DATA @ map fst (branchMonthly DEFAULT_DATA)
     @ map branch (modifierAttachRates DEFAULT_DATA)
     @ concat (map branches (clusters DEFAULT_DATA))"

subsection \<open>A small stream\<close>

text \<open>Four lines of a product report: a leaf row before any header, a branch header, a
  service-type header, and the leaf row again.  The leaf is a large aggregate whose
  Total Price the source truncated to 999.  A second stream names three more branches: an
  alias of a canonical name, an alias whose target is no canonical name, and a label in
  neither table.\<close>

definition demo_leaf :: LeafFields where
  "demo_leaf =
     \<lparr>leaf_label = ''All Day'', leaf_quantity = Some 100000, leaf_unit_price = Some 15,
      leaf_total_price = Some 999, leaf_total_cost = Some 500000,
      leaf_total_profit = Some 1000000\<rparr>"

definition demo_classify :: "string list \<Rightarrow> RowKind" where
  "demo_classify fs =
     (if length fs = 2 \<and> fs ! 0 = ''Branch:'' then BranchHeader (fs ! 1)
      else if fs = [''TAKE AWAY''] then ServiceHeader ''TAKE AWAY''
      else if fs = [''All Day'', ''100000'', ''15'', ''999'', ''500000'', ''1000000'']
      then Leaf demo_leaf
      else Noise)"

definition demo_cfg :: StreamConfig where
  "demo_cfg =
     \<lparr>delimiter = CHR '','', classify = demo_classify,
      required_context = [BranchField, ServiceField],
      canonical_branches = default_branch_names,
      alias_table = [(''Zalka.'', ''Zalka''), (''ZALKA 2'', ''Zalka New'')]\<rparr>"

definition demo_lines :: "RawLine list" where
  "demo_lines =
     [\<lparr>line_file = ''rep_s_00014_SMRY.csv'', line_no = 1,
       line_text = ''All Day,100000,15,999,500000,1000000''\<rparr>,
      \<lparr>line_file = ''rep_s_00014_SMRY.csv'', line_no = 2, line_text = ''Branch:,ZALKA''\<rparr>,
      \<lparr>line_file = ''rep_s_00014_SMRY.csv'', line_no = 3, line_text = ''TAKE AWAY''\<rparr>,
      \<lparr>line_file = ''rep_s_00014_SMRY.csv'', line_no = 4,
       line_text = ''All Day,100000,15,999,500000,1000000''\<rparr>]"

definition demo_row :: OutputRow where
  "demo_row =
     \<lparr>out_branch = ''Zalka'',
      out_context = \<lparr>ctx_branch = Some ''Zalka'', ctx_service = Some ''TAKE AWAY'',
                      ctx_category = None, ctx_section = None\<rparr>,
      out_label = ''All Day'', Quantity = 100000, UnitPrice = 15, TotalPrice = 999,
      TotalCost = 500000, TotalProfit = 1000000, TrueRevenue = 1500000\<rparr>"

definition branch_row :: "string \<Rightarrow> OutputRow" where
  "branch_row b =
     demo_row\<lparr>out_branch := b,
       out_context := (out_context demo_row)\<lparr>ctx_branch := Some b\<rparr>\<rparr>"

definition alias_lines :: "RawLine list" where
  "alias_lines =
     [\<lparr>line_file = ''rep_s_00014_SMRY.csv'', line_no = 1, line_text = ''Branch:,Zalka.''\<rparr>,
      \<lparr>line_file = ''rep_s_00014_SMRY.csv'', line_no = 2, line_text = ''TAKE AWAY''\<rparr>,
      \<lparr>line_file = ''rep_s_00014_SMRY.csv'', line_no = 3,
       line_text = ''All Day,100000,15,999,500000,1000000''\<rparr>,
      \<lparr>line_file = ''rep_s_00014_SMRY.csv'', line_no = 4, line_text = ''Branch:,ZALKA 2''\<rparr>,
      \<lparr>line_file = ''rep_s_00014_SMRY.csv'', line_no = 5, line_text = ''TAKE AWAY''\<rparr>,
      \<lparr>line_file = ''rep_s_00014_SMRY.csv'', line_no = 6,
       line_text = ''All Day,100000,15,999,500000,1000000''\<rparr>,
      \<lparr>line_file = ''rep_s_00014_SMRY.csv'', line_no = 7, line_text = ''Branch:,Hamra''\<rparr>,
      \<lparr>line_file = ''rep_s_00014_SMRY.csv'', line_no = 8, line_text = ''TAKE AWAY''\<rparr>,
      \<lparr>line_file = ''rep_s_00014_SMRY.csv'', line_no = 9,
       line_text = ''All Day,100000,15,999,500000,1000000''\<rparr>]"

chapter \<open>Properties\<close>

section \<open>Properties: the data-context reducer (context/DataContext.tsx)\<close>

subsection \<open>Claim C9\<close>

text \<open>
  C9.  The reducer keeps the displayed dataset intact on failure: for every state,
  \<open>SET_ERROR\<close> leaves \<open>data\<close> unchanged, sets \<open>isLoading\<close> to false and records the
  message; it changes \<open>source\<close> to "default" only if it was "processing" and leaves it
  unchanged otherwise.  An unrecognized action returns the state unchanged, and
  \<open>RESET\<close> restores exactly \<open>DEFAULT_DATA\<close> with source "default".
\<close>

theorem dataReducer_frame:
  "data (dataReducer state (SET_ERROR msg)) = data state
   \<and> isLoading (dataReducer state (SET_ERROR msg)) = False
   \<and> error (dataReducer state (SET_ERROR msg)) = Some msg
   \<and> source (dataReducer state (SET_ERROR msg)) =
       (if source state = SrcProcessing then SrcDefault else source state)
   \<and> dataReducer state (OTHER t) = state
   \<and> dataReducer state RESET =
       \<lparr>data = DEFAULT_DATA, isLoading = False, error = None, source = SrcDefault\<rparr>"
  by simp

section \<open>Properties: the upload page (pages/UploadPage.tsx)\<close>

subsection \<open>Report codes are matched as plain substrings\<close>

lemma canonicalize_digit: "is_digit c \<Longrightarrow> canonicalize c = c"
  by (simp add: canonicalize_def is_digit_def Let_def)

lemma canonicalize_to_digit:
  assumes "is_digit (canonicalize c)"
  shows "canonicalize c = c"
proof (cases "97 \<le> (of_char c :: nat) \<and> (of_char c :: nat) \<le> 122")
  case True
  then have "canonicalize c = char_of ((of_char c :: nat) - 32)"
    by (simp add: canonicalize_def Let_def)
  moreover have "(of_char (char_of ((of_char c :: nat) - 32) :: char) :: nat) = (of_char c :: nat) - 32"
  proof -
    have "(of_char c :: nat) - 32 < 256" using True by linarith
    then show ?thesis by simp
  qed
  moreover have "\<not> (of_char c :: nat) - 32 \<le> 57" using True by linarith
  ultimately have "\<not> is_digit (canonicalize c)"
    by (simp add: is_digit_def)
  with assms show ?thesis by simp
next
  case False
  then show ?thesis by (auto simp: canonicalize_def Let_def)
qed

lemma map_canonicalize_digits:
  "list_all is_digit pat \<Longrightarrow> map canonicalize xs = pat \<Longrightarrow> xs = pat"
proof (induction xs arbitrary: pat)
  case Nil
  then show ?case by simp
next
  case (Cons x xs)
  then obtain p ps where pat: "pat = p # ps" by auto
  with Cons.prems have "is_digit (canonicalize x)" "canonicalize x = p" by auto
  then have "x = p" using canonicalize_to_digit [of x] by simp
  moreover have "xs = ps" using Cons pat by auto
  ultimately show ?case using pat by simp
qed

lemma regex_test_digits:
  assumes "list_all is_digit pat"
  shows "regex_test pat s = sublist pat s"
proof -
  have fixed: "map canonicalize pat = pat"
    using assms by (induction pat) (auto simp: canonicalize_digit)
  show ?thesis
  proof
    assume "regex_test pat s"
    then obtain ps ss where "map canonicalize s = ps @ pat @ ss"
      by (auto simp: regex_test_def fixed sublist_def)
    then obtain s1 t where s1: "s = s1 @ t" and t: "map canonicalize t = pat @ ss"
      by (metis map_eq_append_conv)
    then obtain s2 s3 where s23: "t = s2 @ s3" and m: "map canonicalize s2 = pat"
      by (metis map_eq_append_conv)
    from s1 s23 have s: "s = s1 @ s2 @ s3" by simp
    from map_canonicalize_digits [OF assms m] s show "sublist pat s"
      by (auto simp: sublist_def)
  next
    assume "sublist pat s"
    then obtain ps ss where "s = ps @ pat @ ss" by (auto simp: sublist_def)
    then have "map canonicalize s = map canonicalize ps @ pat @ map canonicalize ss"
      by (simp add: fixed)
    then show "regex_test pat s"
      unfolding regex_test_def fixed sublist_def by blast
  qed
qed

lemma find_expected:
  "find (\<lambda>ef. regex_test (pattern ef) n) EXPECTED_FILES =
   find (\<lambda>ef. sublist (pattern ef) n) EXPECTED_FILES"
  by (simp add: EXPECTED_FILES_def regex_test_digits is_digit_def)

lemma find_expected_None:
  "(find (\<lambda>ef. sublist (pattern ef) n) EXPECTED_FILES = None) = (\<not> contains_report_code n)"
  by (simp add: EXPECTED_FILES_def contains_report_code_def)

lemma matchFiles_entry:
  assumes "e \<in> set (matchFiles incoming)"
  shows "(status e = StMatched) = contains_report_code (file_name (file_of e))"
    and "(status e = StError) = (\<not> contains_report_code (file_name (file_of e)))"
    and "matched e =
           map_option label (find (\<lambda>ef. sublist (pattern ef) (file_name (file_of e))) EXPECTED_FILES)"
    and "(matched e = None) = (\<not> contains_report_code (file_name (file_of e)))"
    and "file_of e \<in> set incoming"
  using assms find_expected_None [of "file_name (file_of e)"]
  by (auto simp: matchFiles_def Let_def find_expected split: option.splits)

text \<open>What the drop handler keeps: the \<open>.csv\<close> files, each with its entry.\<close>

lemma onDrop_files:
  "files (onDrop dropped st) =
     (if \<exists>f \<in> set dropped. suffix ''.csv'' (file_name f)
      then matchFiles (filter (\<lambda>f. suffix ''.csv'' (file_name f)) dropped)
      else files st)"
  by (auto simp: onDrop_def Let_def filter_empty_conv)

subsection \<open>Claim C2\<close>

text \<open>
  C2, as stated, fails.  It speaks of every input file and of files never silently
  dropped; the drop and select handlers discard every file whose name does not end in
  \<open>.csv\<close> (compared case-sensitively) before any matching.  A file named
  \<open>rep_s_00014_SMRY.CSV\<close> contains the code 00014 and is not recognized, and a file named
  \<open>notes.txt\<close> contains no code and gets no error entry: both leave the page without an
  entry.
\<close>

theorem upload_every_file_counterexample:
  "contains_report_code ''rep_s_00014_SMRY.CSV''
   \<and> files (onDrop [\<lparr>file_name = ''rep_s_00014_SMRY.CSV'', file_size = 1\<rparr>] initial_page) = []
   \<and> \<not> contains_report_code ''notes.txt''
   \<and> files (onDrop [\<lparr>file_name = ''notes.txt'', file_size = 1\<rparr>] initial_page) = []"
  by (simp add: contains_report_code_def sublist_Cons_right onDrop_def Let_def
      suffix_def initial_page_def)

text \<open>
  C2, amended.  Of the dropped or selected files, those whose name ends in \<open>.csv\<close> each
  get one entry, in order, and replace the list; the others are discarded, and when no
  name ends in \<open>.csv\<close> the page is left as it was.  An entry is "matched" exactly when its
  file name contains one of the four report codes 00014, 00134, 00191, 00673 (the
  case-insensitive test is a plain substring test on digits), its label being that of the
  first listed code the name contains; a name with none of the codes gives an "error"
  entry with no label.  The run button is disabled exactly when the number of entries
  whose status is "matched" differs from 4 or an upload or analysis is under way.
\<close>

theorem upload_recognizes_csv_files:
  "((\<exists>f \<in> set dropped. suffix ''.csv'' (file_name f)) \<longrightarrow>
      map file_of (files (onDrop dropped st))
        = filter (\<lambda>f. suffix ''.csv'' (file_name f)) dropped
      \<and> (\<forall>e \<in> set (files (onDrop dropped st)).
            (status e = StMatched) = contains_report_code (file_name (file_of e))
            \<and> (status e = StError) = (\<not> contains_report_code (file_name (file_of e)))
            \<and> (matched e = None) = (\<not> contains_report_code (file_name (file_of e)))
            \<and> matched e =
                map_option label
                  (find (\<lambda>ef. sublist (pattern ef) (file_name (file_of e))) EXPECTED_FILES)))
   \<and> ((\<forall>f \<in> set dropped. \<not> suffix ''.csv'' (file_name f)) \<longrightarrow> onDrop dropped st = st)
   \<and> onFileSelect dropped st = onDrop dropped st
   \<and> run_disabled st =
       (length (filter (\<lambda>e. status e = StMatched) (files st)) \<noteq> 4
        \<or> processing st = Uploading \<or> processing st = Processing)"
proof (intro conjI impI ballI)
  assume csv: "\<exists>f \<in> set dropped. suffix ''.csv'' (file_name f)"
  then have fs: "files (onDrop dropped st)
      = matchFiles (filter (\<lambda>f. suffix ''.csv'' (file_name f)) dropped)"
    by (simp add: onDrop_files)
  show "map file_of (files (onDrop dropped st))
        = filter (\<lambda>f. suffix ''.csv'' (file_name f)) dropped"
    unfolding fs by (simp add: matchFiles_def Let_def comp_def)
  fix e assume "e \<in> set (files (onDrop dropped st))"
  then have e: "e \<in> set (matchFiles (filter (\<lambda>f. suffix ''.csv'' (file_name f)) dropped))"
    by (simp only: fs)
  show "(status e = StMatched) = contains_report_code (file_name (file_of e))"
    by (rule matchFiles_entry(1) [OF e])
  show "(status e = StError) = (\<not> contains_report_code (file_name (file_of e)))"
    by (rule matchFiles_entry(2) [OF e])
  show "(matched e = None) = (\<not> contains_report_code (file_name (file_of e)))"
    by (rule matchFiles_entry(4) [OF e])
  show "matched e =
          map_option label
            (find (\<lambda>ef. sublist (pattern ef) (file_name (file_of e))) EXPECTED_FILES)"
    by (rule matchFiles_entry(3) [OF e])
next
  assume "\<forall>f \<in> set dropped. \<not> suffix ''.csv'' (file_name f)"
  then have "filter (\<lambda>f. suffix ''.csv'' (file_name f)) dropped = []"
    by (simp add: filter_empty_conv)
  then show "onDrop dropped st = st"
    by (simp add: onDrop_def)
next
  show "onFileSelect dropped st = onDrop dropped st"
    by (simp add: onFileSelect_def onDrop_def)
next
  show "run_disabled st =
       (length (filter (\<lambda>e. status e = StMatched) (files st)) \<noteq> 4
        \<or> processing st = Uploading \<or> processing st = Processing)"
    by (simp add: run_disabled_def allMatched_def matchedCount_def)
qed

theorem upload_recognizes_csv_files_witness:
  "suffix ''.csv'' ''notes.csv''
   \<and> map file_of
         (files (onDrop [\<lparr>file_name = ''notes.csv'', file_size = 5\<rparr>,
                         \<lparr>file_name = ''rep_s_00014_SMRY.CSV'', file_size = 1\<rparr>] initial_page))
       = [\<lparr>file_name = ''notes.csv'', file_size = 5\<rparr>]
   \<and> list_all (\<lambda>e. status e = StError \<and> matched e = None)
         (files (onDrop [\<lparr>file_name = ''notes.csv'', file_size = 5\<rparr>,
                         \<lparr>file_name = ''rep_s_00014_SMRY.CSV'', file_size = 1\<rparr>] initial_page))
   \<and> onDrop [\<lparr>file_name = ''notes.txt'', file_size = 1\<rparr>] demo_page = demo_page
   \<and> length (filter (\<lambda>e. status e = StMatched) (files demo_page)) = 4
   \<and> \<not> run_disabled demo_page"
proof -
  let ?n = "\<lparr>file_name = ''notes.csv'', file_size = 5\<rparr>"
  let ?u = "\<lparr>file_name = ''rep_s_00014_SMRY.CSV'', file_size = 1\<rparr>"
  let ?t = "\<lparr>file_name = ''notes.txt'', file_size = 1\<rparr>"
  have csv: "suffix ''.csv'' ''notes.csv''" "\<not> suffix ''.csv'' ''rep_s_00014_SMRY.CSV''"
    "\<not> suffix ''.csv'' ''notes.txt''"
    by (simp_all add: suffix_def)
  have nocode: "\<not> contains_report_code ''notes.csv''"
    by (simp add: contains_report_code_def sublist_Cons_right)
  have ex: "\<exists>f \<in> set [?n, ?u]. suffix ''.csv'' (file_name f)"
    using csv by simp
  have filt: "filter (\<lambda>f. suffix ''.csv'' (file_name f)) [?n, ?u] = [?n]"
    using csv by simp
  note inst = upload_recognizes_csv_files [of "[?n, ?u]" initial_page]
  from inst ex
  have "map file_of (files (onDrop [?n, ?u] initial_page))
      = filter (\<lambda>f. suffix ''.csv'' (file_name f)) [?n, ?u]"
    by blast
  then have kept: "map file_of (files (onDrop [?n, ?u] initial_page)) = [?n]"
    by (simp only: filt)
  from inst ex
  have each: "\<forall>e \<in> set (files (onDrop [?n, ?u] initial_page)).
      (status e = StError) = (\<not> contains_report_code (file_name (file_of e)))
      \<and> (matched e = None) = (\<not> contains_report_code (file_name (file_of e)))"
    by blast
  from arg_cong [OF kept, of set]
  have "file_of ` set (files (onDrop [?n, ?u] initial_page)) = {?n}"
    by simp
  then have "\<forall>e \<in> set (files (onDrop [?n, ?u] initial_page)). file_of e = ?n"
    by blast
  with each nocode
  have errors: "list_all (\<lambda>e. status e = StError \<and> matched e = None)
      (files (onDrop [?n, ?u] initial_page))"
    by (simp add: list_all_iff)
  have none: "\<forall>f \<in> set [?t]. \<not> suffix ''.csv'' (file_name f)"
    using csv by simp
  from upload_recognizes_csv_files [of "[?t]" demo_page] none
  have unchanged: "onDrop [?t] demo_page = demo_page"
    by blast
  have statuses: "map status (matchFiles demo_files) = [StMatched, StMatched, StMatched, StMatched]"
    unfolding matchFiles_def find_expected
    by (simp add: demo_files_def Let_def EXPECTED_FILES_def sublist_Cons_right)
  have "length (filter (\<lambda>e. status e = StMatched) (matchFiles demo_files))
      = length (filter (\<lambda>x. x = StMatched) (map status (matchFiles demo_files)))"
    by (simp add: filter_map comp_def)
  then have four: "length (filter (\<lambda>e. status e = StMatched) (files demo_page)) = 4"
    by (simp add: statuses demo_page_def)
  have idle: "processing demo_page = Idle"
    by (simp add: demo_page_def)
  from upload_recognizes_csv_files [of "[?t]" demo_page]
  have "run_disabled demo_page =
      (length (filter (\<lambda>e. status e = StMatched) (files demo_page)) \<noteq> 4
       \<or> processing demo_page = Uploading \<or> processing demo_page = Processing)"
    by blast
  with four idle have enabled: "\<not> run_disabled demo_page"
    by simp
  from csv(1) kept errors unchanged four enabled show ?thesis by blast
qed

subsection \<open>Claim C7\<close>

lemma checkBackendHealth_total: "\<exists>b. checkBackendHealth h = Inr b"
  by (cases h) auto

lemma offline_message_nonempty: "offline_message \<noteq> []"
  by (simp add: offline_message_def)

text \<open>
  C7.  \<open>runAnalysis\<close> never lets an exception escape: whatever the two network
  exchanges turn out to be, it returns, and the page ends either in the state "done",
  with no error shown and the uploaded result installed as the context's data, or in the
  state "error" with a non-empty error message and the context's state untouched.
  \<open>checkBackendHealth\<close> never throws, and answers false when the backend is unreachable.
\<close>

theorem runAnalysis_settles:
  "(\<exists>st' ds'. runAnalysis health upload (st, ds) = Inr (st', ds')
      \<and> ((processing st' = Done \<and> error_msg st' = None
            \<and> (\<exists>result. uploadAndAnalyze upload = Inr result
                  \<and> ds' = dataReducer ds (SET_DATA result) \<and> data ds' = result))
          \<or> (processing st' = Error \<and> (\<exists>m. error_msg st' = Some m \<and> m \<noteq> [])
              \<and> ds' = ds)))
   \<and> (\<exists>b. checkBackendHealth health = Inr b)
   \<and> checkBackendHealth (HealthRejected reason) = Inr False"
proof -
  obtain b where b: "checkBackendHealth health = Inr b"
    using checkBackendHealth_total by blast
  show ?thesis
  proof (cases b)
    case False
    with b show ?thesis
      by (auto simp: runAnalysis_def Let_def offline_message_nonempty)
  next
    case True
    with b show ?thesis
      by (cases "uploadAndAnalyze upload") (auto simp: runAnalysis_def Let_def)
  qed
qed

section \<open>Properties: the heat-map normaliser (pages/DashboardPage.tsx, components/SeasonalityTrends.tsx)\<close>

lemma Math_max_Max: "raw \<noteq> [] \<Longrightarrow> Math_max raw = Fin (Max (set raw))"
proof (induction raw)
  case Nil
  then show ?case by simp
next
  case (Cons x xs)
  show ?case
  proof (cases "xs = []")
    case True
    then show ?thesis by simp
  next
    case False
    with Cons.IH have "Math_max xs = Fin (Max (set xs))" by simp
    with False show ?thesis by simp
  qed
qed

lemma Math_max_empty: "(Math_max raw = Infinite) = (raw = [])"
  by (cases raw) (auto split: jsnum.splits)

lemma Math_max_not_NaN: "Math_max raw \<noteq> NaN"
  by (cases raw) (auto split: jsnum.splits)

text \<open>On the names that are own keys, or that \<open>Object.prototype\<close> does not have, the
  function returns: 0 for a missing branch and for a zero maximum, and otherwise the
  quotient by a non-zero maximum.\<close>

lemma getHeatValue_absent:
  "bm b = None \<Longrightarrow> b \<notin> set object_prototype_keys \<Longrightarrow> getHeatValue fdiv bm b i = Inr (Fin 0)"
  by (simp add: getHeatValue_def property_read_def)

lemma getHeatValue_zero_max:
  "bm b = Some raw \<Longrightarrow> Math_max raw = Fin 0 \<Longrightarrow> getHeatValue fdiv bm b i = Inr (Fin 0)"
  by (simp add: getHeatValue_def property_read_def)

lemma getHeatValue_quotient:
  assumes "bm b = Some raw" "i < length raw" "Math_max raw \<noteq> Fin 0"
  shows "Math_max raw = Fin (Max (set raw)) \<and> Max (set raw) \<noteq> 0
         \<and> getHeatValue fdiv bm b i = Inr (fdiv (raw ! i) (Max (set raw)))"
proof -
  from assms have "raw \<noteq> []" by auto
  then have mx: "Math_max raw = Fin (Max (set raw))" by (rule Math_max_Max)
  with assms show ?thesis
    by (simp add: getHeatValue_def property_read_def index_def Let_def)
qed

text \<open>A division that rounds to nearest keeps a quotient of \<open>0 \<le> x \<le> y\<close> within [0, 1];
  under that condition on \<open>fdiv\<close>, so does the heat value of non-negative data.\<close>

lemma getHeatValue_unit:
  assumes "bm b = Some raw" "i < length raw" "\<forall>x \<in> set raw. 0 \<le> x"
    and rounding: "\<And>x y. 0 \<le> x \<Longrightarrow> x \<le> y \<Longrightarrow> 0 < y \<Longrightarrow> \<exists>q. fdiv x y = Fin q \<and> 0 \<le> q \<and> q \<le> 1"
  shows "\<exists>v. getHeatValue fdiv bm b i = Inr (Fin v) \<and> 0 \<le> v \<and> v \<le> 1"
proof (cases "Math_max raw = Fin 0")
  case True
  with assms(1) show ?thesis by (simp add: getHeatValue_zero_max)
next
  case False
  from getHeatValue_quotient [of bm b raw i fdiv] assms(1,2) False
  have q: "getHeatValue fdiv bm b i = Inr (fdiv (raw ! i) (Max (set raw)))"
    and nz: "Max (set raw) \<noteq> 0"
    by simp_all
  have mem: "raw ! i \<in> set raw" using assms(2) by simp
  then have le: "raw ! i \<le> Max (set raw)" by simp
  have nn: "0 \<le> raw ! i" using assms(3) mem by blast
  with le nz have pos: "0 < Max (set raw)" by linarith
  from rounding [OF nn le pos] q show ?thesis by auto
qed

lemma exact_div_unit:
  "0 \<le> x \<Longrightarrow> x \<le> y \<Longrightarrow> 0 < y \<Longrightarrow> \<exists>q. exact_div x y = Fin q \<and> 0 \<le> q \<and> q \<le> 1"
  by (simp add: exact_div_def)

lemma getHeatValue_airport:
  "getHeatValue exact_div branchMonthlyRaw ''Airport'' 5 = Inr (Fin (8429 / 8414673))"
  by (simp add: getHeatValue_def property_read_def branchMonthlyRaw_def DEFAULT_DATA_def
      index_def exact_div_def)

subsection \<open>Claim C8\<close>


section \<open>Properties: the rule-based chat replies (components/ChatWidget.tsx, pages/ChatPage.tsx)\<close>

subsection \<open>Every reply is one of the fixed texts\<close>

lemma generateResponse_texts_nonempty: "t \<in> set generateResponse_texts \<Longrightarrow> t \<noteq> []"
  unfolding generateResponse_texts_def
  by (auto simp: reply_leaks_def reply_branches_def reply_forecast_def reply_modifiers_def
      reply_menu_def reply_season_def reply_default_def)

lemma ruleFallback_texts_nonempty: "t \<in> set ruleFallback_texts \<Longrightarrow> t \<noteq> []"
  unfolding ruleFallback_texts_def
  by (auto simp: fallback_revenue_def fallback_leaks_def fallback_modifiers_def
      fallback_clusters_def fallback_forecast_def fallback_menu_def fallback_default_def)

lemma generateResponse_in_texts: "generateResponse lc i \<in> set generateResponse_texts"
  by (simp add: generateResponse_def generateResponse_texts_def Let_def)

lemma ruleFallback_in_texts: "ruleFallback lc i d \<in> set ruleFallback_texts"
  by (simp add: ruleFallback_def ruleFallback_texts_def Let_def)

subsection \<open>Claim C10\<close>

text \<open>
  C10.  The rule-based replies are total, deterministic pure functions: whatever the input
  (and whatever \<open>toLowerCase\<close> returns for it), \<open>generateResponse\<close> and \<open>ruleFallback\<close>
  return one of their seven fixed texts, none of which is empty; when no keyword occurs
  the final branch gives the default text; \<open>ruleFallback\<close> does not depend on its data
  argument; equal inputs give equal replies.
\<close>

theorem chat_fallback_total:
  "generateResponse lc i \<in> set generateResponse_texts
   \<and> generateResponse lc i \<noteq> []
   \<and> ruleFallback lc i d \<in> set ruleFallback_texts
   \<and> ruleFallback lc i d \<noteq> []
   \<and> ruleFallback lc i d = ruleFallback lc i d'
   \<and> ((\<forall>k \<in> set [''margin'', ''leak'', ''62m'', ''loss'', ''branch'', ''best'', ''top'',
          ''perform'', ''forecast'', ''2026'', ''predict'', ''growth'', ''modifier'', ''upsell'',
          ''gold mine'', ''attach'', ''menu'', ''star'', ''dog'', ''product'', ''season'',
          ''ramadan'', ''summer'', ''month'']. \<not> js_includes (lc i) k)
        \<longrightarrow> generateResponse lc i = reply_default)
   \<and> ((\<forall>k \<in> set [''revenue'', ''sales'', ''margin'', ''leak'', ''loss'', ''modifier'', ''oat'',
          ''almond'', ''cluster'', ''branch'', ''segment'', ''forecast'', ''2026'', ''predict'',
          ''menu'', ''star'', ''dog'']. \<not> js_includes (lc i) k)
        \<longrightarrow> ruleFallback lc i d = fallback_default)
   \<and> (i = i' \<longrightarrow> generateResponse lc i = generateResponse lc i'
                  \<and> ruleFallback lc i d = ruleFallback lc i' d)"
proof (intro conjI impI)
  show "generateResponse lc i \<in> set generateResponse_texts"
    by (rule generateResponse_in_texts)
  then show "generateResponse lc i \<noteq> []"
    by (rule generateResponse_texts_nonempty)
  show "ruleFallback lc i d \<in> set ruleFallback_texts"
    by (rule ruleFallback_in_texts)
  then show "ruleFallback lc i d \<noteq> []"
    by (rule ruleFallback_texts_nonempty)
  show "ruleFallback lc i d = ruleFallback lc i d'"
    by (simp add: ruleFallback_def)
qed (simp_all add: generateResponse_def ruleFallback_def Let_def)

theorem chat_fallback_total_witness:
  "ascii_lower ''Hello There'' = ''hello there''
   \<and> generateResponse ascii_lower ''Hello There'' = reply_default
   \<and> ruleFallback ascii_lower ''Hello There'' (0::nat) = fallback_default
   \<and> generateResponse ascii_lower ''Hello There'' \<noteq> []"
proof -
  have low: "ascii_lower ''Hello There'' = ''hello there''"
    by code_simp
  have g: "\<forall>k \<in> set [''margin'', ''leak'', ''62m'', ''loss'', ''branch'', ''best'', ''top'',
          ''perform'', ''forecast'', ''2026'', ''predict'', ''growth'', ''modifier'', ''upsell'',
          ''gold mine'', ''attach'', ''menu'', ''star'', ''dog'', ''product'', ''season'',
          ''ramadan'', ''summer'', ''month'']. \<not> js_includes (ascii_lower ''Hello There'') k"
    unfolding low by (simp add: js_includes_def sublist_Cons_right)
  have f: "\<forall>k \<in> set [''revenue'', ''sales'', ''margin'', ''leak'', ''loss'', ''modifier'', ''oat'',
          ''almond'', ''cluster'', ''branch'', ''segment'', ''forecast'', ''2026'', ''predict'',
          ''menu'', ''star'', ''dog'']. \<not> js_includes (ascii_lower ''Hello There'') k"
    unfolding low by (simp add: js_includes_def sublist_Cons_right)
  from chat_fallback_total [of ascii_lower "''Hello There''" "0::nat" 1 "''Hello There''"] g f low
  show ?thesis by blast
qed

section \<open>Properties: the cleaning pipeline (data_cleaning.py)\<close>

subsection \<open>Tokenizer lemmas\<close>

lemma split_quoted:
  assumes "rest = [] \<or> hd rest \<noteq> quote_char"
  shows "split_fields d True cur (escape_quotes v @ quote_char # rest) =
         split_fields d False (cur @ v) rest"
  using assms
proof (induction v arbitrary: cur)
  case Nil
  then show ?case by (cases rest) auto
next
  case (Cons c v)
  then show ?case by simp
qed

lemma split_quoted_end:
  "split_fields d True cur (escape_quotes v @ [quote_char]) = split_fields d False (cur @ v) []"
  using split_quoted [of "[]" d cur v] by simp

lemma split_quoted_then:
  "c \<noteq> quote_char \<Longrightarrow>
   split_fields d True cur (escape_quotes v @ quote_char # c # rest) =
   split_fields d False (cur @ v) (c # rest)"
  using split_quoted [of "c # rest" d cur v] by simp

lemma split_unterminated: "quote_char \<notin> set s \<Longrightarrow> split_fields d True cur s = None"
  by (induction s arbitrary: cur) auto

lemma split_open_quote:
  "quote_char \<notin> set pre \<Longrightarrow> quote_char \<notin> set s \<Longrightarrow>
   split_fields d False cur (pre @ quote_char # s) = None"
  by (induction pre arbitrary: cur) (auto simp: split_unterminated)

lemma split_join_quoted:
  assumes "d \<noteq> quote_char"
  shows "fs \<noteq> [] \<Longrightarrow> split_fields d False [] (join_fields d (map quote_field fs)) = Some fs"
proof (induction fs)
  case Nil
  then show ?case by simp
next
  case (Cons f gs)
  show ?case
  proof (cases gs)
    case Nil
    then show ?thesis by (simp add: quote_field_def split_quoted_end)
  next
    case (Cons g hs)
    let ?rest = "join_fields d (map quote_field gs)"
    have "split_fields d False [] (join_fields d (map quote_field (f # gs))) =
          split_fields d True [] (escape_quotes f @ quote_char # d # ?rest)"
      using Cons by (simp add: quote_field_def)
    also have "\<dots> = split_fields d False f (d # ?rest)"
      using assms by (simp add: split_quoted_then)
    also have "\<dots> = map_option ((#) f) (split_fields d False [] ?rest)"
      using assms by simp
    also have "\<dots> = Some (f # gs)"
      using Cons Cons.IH by simp
    finally show ?thesis .
  qed
qed

subsection \<open>Invariants of the pass\<close>

lemma fold_process_invariant:
  assumes "\<And>l st. P st \<Longrightarrow> P (process_line cfg l st)" "P st"
  shows "P (fold (process_line cfg) ls st)"
  using assms(2) by (induction ls arbitrary: st) (auto intro: assms(1))

lemma process_line_rows:
  "rows (process_line cfg l st) = rows st
   \<or> (\<exists>fs lf r. tokenize (delimiter cfg) l = Inr fs \<and> classify cfg fs = Leaf lf
        \<and> context_complete (required_context cfg) (cur_context st)
        \<and> correct_row cfg (cur_context st) lf = Some r
        \<and> rows (process_line cfg l st) = rows st @ [r])"
  by (auto simp: process_line_def split: sum.splits RowKind.splits option.splits)

lemma correct_row_revenue:
  "correct_row cfg ctx lf = Some r \<Longrightarrow> TrueRevenue r = TotalCost r + TotalProfit r"
  by (auto simp: correct_row_def split: option.splits)

lemma correct_row_context:
  "correct_row cfg ctx lf = Some r \<Longrightarrow>
   out_context r =
     ctx\<lparr>ctx_branch :=
           map_option (normalize_branch (canonical_branches cfg) (alias_table cfg))
             (ctx_branch ctx)\<rparr>"
  by (auto simp: correct_row_def split: option.splits)

lemma correct_row_context_field:
  assumes "correct_row cfg ctx lf = Some r"
  shows "(context_field (out_context r) f = None) = (context_field ctx f = None)"
  unfolding correct_row_context [OF assms] by (cases f) simp_all

lemma correct_row_context_branch:
  "correct_row cfg ctx lf = Some r \<Longrightarrow> ctx_branch (out_context r) \<in> {None, Some (out_branch r)}"
  by (auto simp: correct_row_def split: option.splits)

lemma match_canonical_member: "match_canonical canonical s = Some c \<Longrightarrow> c \<in> set canonical"
  by (auto simp: match_canonical_def find_Some_iff)

lemma normalize_branch_closed:
  "normalize_branch canonical aliases raw \<in> set canonical \<union> {unknown_closed}"
  by (auto simp: normalize_branch_def dest: match_canonical_member split: option.splits)

lemma correct_row_branch:
  assumes "correct_row cfg ctx lf = Some r"
  shows "out_branch r \<in> set (canonical_branches cfg) \<union> {unknown_closed}"
proof (cases "ctx_branch ctx")
  case None
  with assms show ?thesis
    by (auto simp: correct_row_def split: option.splits)
next
  case (Some raw)
  with assms have "out_branch r = normalize_branch (canonical_branches cfg) (alias_table cfg) raw"
    by (auto simp: correct_row_def split: option.splits)
  with normalize_branch_closed [of "canonical_branches cfg" "alias_table cfg" raw]
  show ?thesis by simp
qed

lemma rows_invariant:
  assumes step: "\<And>ctx lf r. context_complete (required_context cfg) ctx \<Longrightarrow>
                   correct_row cfg ctx lf = Some r \<Longrightarrow> Q r"
  shows "\<forall>r \<in> set (rows (clean_stream cfg ls)). Q r"
proof -
  let ?P = "\<lambda>st::StreamState. \<forall>r \<in> set (rows st). Q r"
  have "?P (fold (process_line cfg) ls initial_stream)"
  proof (rule fold_process_invariant)
    show "?P initial_stream" by (simp add: initial_stream_def)
  next
    fix l st assume inv: "?P st"
    from process_line_rows [of cfg l st] show "?P (process_line cfg l st)"
    proof
      assume "rows (process_line cfg l st) = rows st"
      with inv show ?thesis by simp
    next
      assume "\<exists>fs lf r. tokenize (delimiter cfg) l = Inr fs \<and> classify cfg fs = Leaf lf
        \<and> context_complete (required_context cfg) (cur_context st)
        \<and> correct_row cfg (cur_context st) lf = Some r
        \<and> rows (process_line cfg l st) = rows st @ [r]"
      then obtain lf r where "context_complete (required_context cfg) (cur_context st)"
        "correct_row cfg (cur_context st) lf = Some r"
        "rows (process_line cfg l st) = rows st @ [r]" by blast
      with inv step show ?thesis by auto
    qed
  qed
  then show ?thesis by (simp add: clean_stream_def)
qed

lemma correct_row_total_price:
  "correct_row cfg ctx lf = Some r \<Longrightarrow>
   correct_row cfg ctx (lf\<lparr>leaf_total_price := Some p\<rparr>) = Some (r\<lparr>TotalPrice := p\<rparr>)"
  by (auto simp: correct_row_def split: option.splits)

lemma leaf_before_context:
  assumes "tokenize (delimiter cfg) l = Inr fs" "classify cfg fs = Leaf lf"
    "\<not> context_complete (required_context cfg) (cur_context st)"
  shows "process_line cfg l st =
         st\<lparr>structural_errors :=
              structural_errors st @ [LeafBeforeContext (line_file l) (line_no l)]\<rparr>"
  using assms by (simp add: process_line_def)

subsection \<open>The default dataset\<close>

lemma default_branch_names_eq:
  "default_branch_names =
     [''Ain El Mreisseh'', ''Zalka'', ''Khaldeh'',
      ''Batroun'', ''Bayada'', ''Le Mall'', ''Centro Mall'', ''Bir Hasan'',
      ''Antelias'', ''Saida'', ''Verdun'', ''Sin El Fil'', ''Amioun'', ''LAU'',
      ''Unknown (Closed)'', ''Faqra'',
      ''Airport'', ''Ramlet El Bayda'', ''Aley'', ''Mansourieh'', ''Jbeil'',
      ''Sour 2'', ''Raouche'', ''Kaslik'', ''Event Starco'']"
  by (simp add: default_branch_names_def DEFAULT_DATA_def)

lemma default_names_count: "length default_branch_names = 25"
  by (simp add: default_branch_names_eq)

lemma default_names_distinct: "distinct default_branch_names"
  unfolding default_branch_names_eq by simp

lemma default_dataset_closed: "set default_dataset_branches \<subseteq> set default_branch_names"
  unfolding default_branch_names_eq
  by (simp add: default_dataset_branches_def DEFAULT_DATA_def)

lemma default_names_union:
  "set default_branch_names = (\<Union>c \<in> set (clusters DEFAULT_DATA). set (branches c))"
  by (simp add: default_branch_names_def)

subsection \<open>The small stream, evaluated\<close>

lemma demo_tokenize:
  "tokenize (delimiter demo_cfg)
     \<lparr>line_file = fl, line_no = n, line_text = ''All Day,100000,15,999,500000,1000000''\<rparr> =
     Inr [''All Day'', ''100000'', ''15'', ''999'', ''500000'', ''1000000'']"
  "tokenize (delimiter demo_cfg) \<lparr>line_file = fl, line_no = n, line_text = ''Branch:,ZALKA''\<rparr> =
     Inr [''Branch:'', ''ZALKA'']"
  "tokenize (delimiter demo_cfg) \<lparr>line_file = fl, line_no = n, line_text = ''TAKE AWAY''\<rparr> =
     Inr [''TAKE AWAY'']"
  by (simp_all add: tokenize_def demo_cfg_def quote_char_def)

lemma demo_classified:
  "classify demo_cfg [''All Day'', ''100000'', ''15'', ''999'', ''500000'', ''1000000''] =
     Leaf demo_leaf"
  "classify demo_cfg [''Branch:'', ''ZALKA''] = BranchHeader ''ZALKA''"
  "classify demo_cfg [''TAKE AWAY''] = ServiceHeader ''TAKE AWAY''"
  by (simp_all add: demo_cfg_def demo_classify_def)

lemma demo_required: "required_context demo_cfg = [BranchField, ServiceField]"
  by (simp add: demo_cfg_def)

lemma demo_normalize:
  "normalize_branch (canonical_branches demo_cfg) (alias_table demo_cfg) ''ZALKA'' = ''Zalka''"
  unfolding default_branch_names_eq demo_cfg_def by code_simp

lemma demo_line1:
  "process_line demo_cfg
     \<lparr>line_file = fl, line_no = n, line_text = ''All Day,100000,15,999,500000,1000000''\<rparr>
     initial_stream =
   initial_stream\<lparr>structural_errors := [LeafBeforeContext fl n]\<rparr>"
  by (simp add: process_line_def demo_tokenize demo_classified demo_required
      initial_stream_def unset_context_def context_complete_def)

lemma demo_line2:
  "process_line demo_cfg \<lparr>line_file = fl, line_no = n, line_text = ''Branch:,ZALKA''\<rparr> st =
   st\<lparr>cur_context :=
        \<lparr>ctx_branch = Some ''ZALKA'', ctx_service = None, ctx_category = None,
         ctx_section = None\<rparr>\<rparr>"
  by (simp add: process_line_def demo_tokenize demo_classified)

lemma demo_line3:
  "process_line demo_cfg \<lparr>line_file = fl, line_no = n, line_text = ''TAKE AWAY''\<rparr> st =
   st\<lparr>cur_context :=
        (cur_context st)\<lparr>ctx_service := Some ''TAKE AWAY'', ctx_category := None,
          ctx_section := None\<rparr>\<rparr>"
  by (simp add: process_line_def demo_tokenize demo_classified)

lemma demo_correct:
  "correct_row demo_cfg
     \<lparr>ctx_branch = Some ''ZALKA'', ctx_service = Some ''TAKE AWAY'', ctx_category = None,
      ctx_section = None\<rparr> demo_leaf = Some demo_row"
  by (simp add: correct_row_def demo_leaf_def demo_normalize demo_row_def)

lemma alias_tokenize:
  "tokenize (delimiter demo_cfg) \<lparr>line_file = fl, line_no = n, line_text = ''Branch:,Zalka.''\<rparr> =
     Inr [''Branch:'', ''Zalka.'']"
  "tokenize (delimiter demo_cfg) \<lparr>line_file = fl, line_no = n, line_text = ''Branch:,ZALKA 2''\<rparr> =
     Inr [''Branch:'', ''ZALKA 2'']"
  "tokenize (delimiter demo_cfg) \<lparr>line_file = fl, line_no = n, line_text = ''Branch:,Hamra''\<rparr> =
     Inr [''Branch:'', ''Hamra'']"
  by (simp_all add: tokenize_def demo_cfg_def quote_char_def)

lemma alias_classified: "classify demo_cfg [''Branch:'', b] = BranchHeader b"
  by (simp add: demo_cfg_def demo_classify_def)

lemma alias_branch_line:
  assumes "tokenize (delimiter demo_cfg) l = Inr [''Branch:'', b]"
  shows "process_line demo_cfg l st =
   st\<lparr>cur_context :=
        \<lparr>ctx_branch = Some b, ctx_service = None, ctx_category = None,
         ctx_section = None\<rparr>\<rparr>"
  by (simp add: process_line_def assms alias_classified)

lemma alias_normalize:
  "normalize_branch (canonical_branches demo_cfg) (alias_table demo_cfg) ''Zalka.'' = ''Zalka''"
  "normalize_branch (canonical_branches demo_cfg) (alias_table demo_cfg) ''ZALKA 2''
     = ''Unknown (Closed)''"
  "normalize_branch (canonical_branches demo_cfg) (alias_table demo_cfg) ''Hamra''
     = ''Unknown (Closed)''"
  unfolding default_branch_names_eq demo_cfg_def by code_simp+

lemma alias_leaf_line:
  assumes ctx: "cur_context st =
     \<lparr>ctx_branch = Some raw, ctx_service = Some ''TAKE AWAY'', ctx_category = None,
      ctx_section = None\<rparr>"
    and nb: "normalize_branch (canonical_branches demo_cfg) (alias_table demo_cfg) raw = nb"
  shows "process_line demo_cfg
     \<lparr>line_file = fl, line_no = n, line_text = ''All Day,100000,15,999,500000,1000000''\<rparr> st =
   st\<lparr>rows := rows st @ [branch_row nb],
      unknown_branch_count :=
        unknown_branch_count st + (if nb = unknown_closed then 1 else 0)\<rparr>"
proof -
  have complete: "context_complete (required_context demo_cfg) (cur_context st)"
    by (simp add: ctx demo_required context_complete_def)
  have "correct_row demo_cfg (cur_context st) demo_leaf = Some (branch_row nb)"
    by (simp add: ctx correct_row_def demo_leaf_def nb branch_row_def demo_row_def)
  moreover have "out_branch (branch_row nb) = nb"
    by (simp add: branch_row_def)
  ultimately show ?thesis
    by (simp add: process_line_def demo_tokenize demo_classified complete)
qed

lemma alias_stream:
  "rows (clean_stream demo_cfg alias_lines) =
     [branch_row ''Zalka'', branch_row unknown_closed, branch_row unknown_closed]"
  "unknown_branch_count (clean_stream demo_cfg alias_lines) = 2"
proof -
  have u: "''Unknown (Closed)'' = unknown_closed" "''Zalka'' \<noteq> unknown_closed"
    by (simp_all add: unknown_closed_def)
  have z: "unknown_branch_count initial_stream = 0" "rows initial_stream = []"
    by (simp_all add: initial_stream_def)
  note steps = alias_branch_line [OF alias_tokenize(1)] alias_branch_line [OF alias_tokenize(2)]
    alias_branch_line [OF alias_tokenize(3)] demo_line3
    alias_leaf_line [OF _ alias_normalize(1)] alias_leaf_line [OF _ alias_normalize(2)]
    alias_leaf_line [OF _ alias_normalize(3)]
  show "rows (clean_stream demo_cfg alias_lines) =
     [branch_row ''Zalka'', branch_row unknown_closed, branch_row unknown_closed]"
    by (simp add: clean_stream_def alias_lines_def steps u z)
  show "unknown_branch_count (clean_stream demo_cfg alias_lines) = 2"
    by (simp add: clean_stream_def alias_lines_def steps u z)
qed

lemma demo_line4:
  assumes "cur_context st =
     \<lparr>ctx_branch = Some ''ZALKA'', ctx_service = Some ''TAKE AWAY'', ctx_category = None,
      ctx_section = None\<rparr>"
  shows "process_line demo_cfg
     \<lparr>line_file = fl, line_no = n, line_text = ''All Day,100000,15,999,500000,1000000''\<rparr> st =
   st\<lparr>rows := rows st @ [demo_row]\<rparr>"
proof -
  have complete: "context_complete (required_context demo_cfg) (cur_context st)"
    by (simp add: assms demo_required context_complete_def)
  have known: "out_branch demo_row \<noteq> unknown_closed"
    by (simp add: demo_row_def unknown_closed_def)
  have "correct_row demo_cfg (cur_context st) demo_leaf = Some demo_row"
    by (simp only: assms demo_correct)
  then show ?thesis
    by (simp add: process_line_def demo_tokenize demo_classified complete known)
qed

lemma initial_stream_sel:
  "rows initial_stream = []" "structural_errors initial_stream = []"
  by (simp_all add: initial_stream_def)

lemma demo_stream:
  "rows (clean_stream demo_cfg demo_lines) = [demo_row]"
  "structural_errors (clean_stream demo_cfg demo_lines) = [LeafBeforeContext ''rep_s_00014_SMRY.csv'' 1]"
  by (simp_all add: clean_stream_def demo_lines_def demo_line1 demo_line2 demo_line3 demo_line4
      initial_stream_sel)

subsection \<open>Cache soundness\<close>

lemma cache_from_mono:
  "cache_from fingerprint parse cs cache \<Longrightarrow> set cs \<subseteq> set cs' \<Longrightarrow>
   cache_from fingerprint parse cs' cache"
  unfolding cache_from_def by blast






subsection \<open>Claim C4\<close>

text \<open>
  C4.  The Field Tokenizer treats a delimiter inside a quoted span as part of the field
  value and a doubled quote inside a quoted span as an escaped literal quote: the
  synthetic line \<open>A,"B, C",D\<close> tokenizes to exactly the three fields A / B, C / D, and any
  non-empty list of field values, whatever delimiters and quote characters they contain,
  is recovered from its quoted, delimiter-joined form.  A quote left open at the end of
  the line is reported as an error carrying the line's file and number.
\<close>

theorem tokenizer_contract:
  "tokenize (CHR '','') \<lparr>line_file = fl, line_no = n, line_text = synthetic_line\<rparr>
     = Inr [''A'', ''B, C'', ''D'']
   \<and> (d \<noteq> quote_char \<and> fs \<noteq> [] \<longrightarrow>
        tokenize d \<lparr>line_file = fl, line_no = n,
                    line_text = join_fields d (map quote_field fs)\<rparr> = Inr fs)
   \<and> (quote_char \<notin> set pre \<and> quote_char \<notin> set s \<longrightarrow>
        tokenize d \<lparr>line_file = fl, line_no = n, line_text = pre @ quote_char # s\<rparr>
          = Inl (UnterminatedQuote fl n))"
proof (intro conjI impI)
  show "tokenize (CHR '','') \<lparr>line_file = fl, line_no = n, line_text = synthetic_line\<rparr>
     = Inr [''A'', ''B, C'', ''D'']"
    by (simp add: tokenize_def synthetic_line_def quote_char_def)
next
  assume "d \<noteq> quote_char \<and> fs \<noteq> []"
  then show "tokenize d \<lparr>line_file = fl, line_no = n,
                    line_text = join_fields d (map quote_field fs)\<rparr> = Inr fs"
    by (simp add: tokenize_def split_join_quoted)
next
  assume "quote_char \<notin> set pre \<and> quote_char \<notin> set s"
  then show "tokenize d \<lparr>line_file = fl, line_no = n, line_text = pre @ quote_char # s\<rparr>
          = Inl (UnterminatedQuote fl n)"
    by (simp add: tokenize_def split_open_quote)
qed

theorem tokenizer_contract_witness:
  "CHR '','' \<noteq> quote_char
   \<and> join_fields (CHR '','') (map quote_field [''a,b'', [CHR ''x'', quote_char, CHR ''y'']])
       = [quote_char] @ ''a,b'' @ [quote_char] @ '','' @
         [quote_char] @ ''x'' @ [quote_char, quote_char] @ ''y'' @ [quote_char]
   \<and> tokenize (CHR '','')
         \<lparr>line_file = ''f.csv'', line_no = 7,
          line_text = join_fields (CHR '','')
                        (map quote_field [''a,b'', [CHR ''x'', quote_char, CHR ''y'']])\<rparr>
       = Inr [''a,b'', [CHR ''x'', quote_char, CHR ''y'']]
   \<and> tokenize (CHR '','')
         \<lparr>line_file = ''f.csv'', line_no = 7, line_text = ''A,'' @ quote_char # ''B, C''\<rparr>
       = Inl (UnterminatedQuote ''f.csv'' 7)"
proof -
  have d: "CHR '','' \<noteq> quote_char" by (simp add: quote_char_def)
  have j: "join_fields (CHR '','') (map quote_field [''a,b'', [CHR ''x'', quote_char, CHR ''y'']])
       = [quote_char] @ ''a,b'' @ [quote_char] @ '','' @
         [quote_char] @ ''x'' @ [quote_char, quote_char] @ ''y'' @ [quote_char]"
    by (simp add: quote_field_def quote_char_def)
  have q: "quote_char \<notin> set ''A,''" "quote_char \<notin> set ''B, C''"
    by (simp_all add: quote_char_def)
  from tokenizer_contract
         [of "''f.csv''" 7 "CHR '',''" "[''a,b'', [CHR ''x'', quote_char, CHR ''y'']]"
             "''A,''" "''B, C''"] d q
  have "tokenize (CHR '','')
         \<lparr>line_file = ''f.csv'', line_no = 7,
          line_text = join_fields (CHR '','')
                        (map quote_field [''a,b'', [CHR ''x'', quote_char, CHR ''y'']])\<rparr>
       = Inr [''a,b'', [CHR ''x'', quote_char, CHR ''y'']]"
    and "tokenize (CHR '','')
         \<lparr>line_file = ''f.csv'', line_no = 7, line_text = ''A,'' @ quote_char # ''B, C''\<rparr>
       = Inl (UnterminatedQuote ''f.csv'' 7)"
    by blast+
  with d j show ?thesis by blast
qed

subsection \<open>Claim C5\<close>

text \<open>
  C5.  No leaf row of an output table has an unset required context field: every row
  the pass assembles carries a value for each context field its report's schema
  requires.  A leaf row met while a required field is still unset is reported as a
  structural error with its file and line, and the table is left as it was.
\<close>

theorem context_completeness:
  "(\<forall>r \<in> set (rows (clean_stream cfg ls)).
      \<forall>f \<in> set (required_context cfg). context_field (out_context r) f \<noteq> None)
   \<and> (tokenize (delimiter cfg) l = Inr fs \<and> classify cfg fs = Leaf lf
        \<and> \<not> context_complete (required_context cfg) (cur_context st) \<longrightarrow>
        process_line cfg l st =
          st\<lparr>structural_errors :=
               structural_errors st @ [LeafBeforeContext (line_file l) (line_no l)]\<rparr>)"
proof (intro conjI impI)
  show "\<forall>r \<in> set (rows (clean_stream cfg ls)).
      \<forall>f \<in> set (required_context cfg). context_field (out_context r) f \<noteq> None"
  proof (rule rows_invariant)
    fix ctx lf r
    assume "context_complete (required_context cfg) ctx" "correct_row cfg ctx lf = Some r"
    then show "\<forall>f \<in> set (required_context cfg). context_field (out_context r) f \<noteq> None"
      by (simp add: correct_row_context_field context_complete_def list_all_iff)
  qed
next
  assume "tokenize (delimiter cfg) l = Inr fs \<and> classify cfg fs = Leaf lf
        \<and> \<not> context_complete (required_context cfg) (cur_context st)"
  then show "process_line cfg l st =
          st\<lparr>structural_errors :=
               structural_errors st @ [LeafBeforeContext (line_file l) (line_no l)]\<rparr>"
    by (simp add: leaf_before_context)
qed

theorem context_completeness_witness:
  "rows (clean_stream demo_cfg demo_lines) = [demo_row]
   \<and> list_all (\<lambda>f. context_field (out_context demo_row) f \<noteq> None) (required_context demo_cfg)
   \<and> \<not> context_complete (required_context demo_cfg) (cur_context initial_stream)
   \<and> process_line demo_cfg
         \<lparr>line_file = ''rep_s_00014_SMRY.csv'', line_no = 1,
          line_text = ''All Day,100000,15,999,500000,1000000''\<rparr> initial_stream
       = initial_stream
           \<lparr>structural_errors := [LeafBeforeContext ''rep_s_00014_SMRY.csv'' 1]\<rparr>
   \<and> structural_errors (clean_stream demo_cfg demo_lines)
       = [LeafBeforeContext ''rep_s_00014_SMRY.csv'' 1]"
proof -
  let ?l = "\<lparr>line_file = ''rep_s_00014_SMRY.csv'', line_no = 1,
             line_text = ''All Day,100000,15,999,500000,1000000''\<rparr>"
  have unset: "\<not> context_complete (required_context demo_cfg) (cur_context initial_stream)"
    by (simp add: demo_required initial_stream_def unset_context_def context_complete_def)
  note inst = context_completeness
         [of demo_cfg demo_lines ?l
             "[''All Day'', ''100000'', ''15'', ''999'', ''500000'', ''1000000'']"
             demo_leaf initial_stream]
  from inst demo_stream(1)
  have "\<forall>f \<in> set (required_context demo_cfg). context_field (out_context demo_row) f \<noteq> None"
    by simp
  then have stamped:
    "list_all (\<lambda>f. context_field (out_context demo_row) f \<noteq> None) (required_context demo_cfg)"
    by (simp add: list_all_iff)
  from inst demo_tokenize(1) [of "''rep_s_00014_SMRY.csv''" 1] demo_classified(1) unset
  have "process_line demo_cfg ?l initial_stream
       = initial_stream
           \<lparr>structural_errors :=
              structural_errors initial_stream @ [LeafBeforeContext (line_file ?l) (line_no ?l)]\<rparr>"
    by blast
  then have reported: "process_line demo_cfg ?l initial_stream
       = initial_stream
           \<lparr>structural_errors := [LeafBeforeContext ''rep_s_00014_SMRY.csv'' 1]\<rparr>"
    by (simp add: initial_stream_sel)
  from demo_stream stamped unset reported show ?thesis by blast
qed

subsection \<open>Claim C3\<close>

text \<open>
  C3.  Every branch identity in an output table is a member of the canonical set of
  branch names or the single Unknown/Closed bucket, whatever the two tables hold, and
  the row carries no other branch label; the normalizer is a function of the label and
  the tables, its result always canonical or the bucket, and a raw label matching
  neither the canonical table nor the alias table maps to the bucket.  In the default
  dataset every branch name of \<open>topBranches\<close>, \<open>bottomBranches\<close>, \<open>heatmapBranches\<close>,
  \<open>branchMonthly\<close>, \<open>modifierAttachRates\<close> and the four cluster lists belongs to the set of
  25 distinct names that is the union of the clusters' branch lists, which includes
  "Unknown (Closed)".
\<close>

theorem branch_closure:
  "(\<forall>r \<in> set (rows (clean_stream cfg ls)).
      out_branch r \<in> set (canonical_branches cfg) \<union> {unknown_closed}
      \<and> ctx_branch (out_context r) \<in> {None, Some (out_branch r)})
   \<and> normalize_branch canonical aliases raw \<in> set canonical \<union> {unknown_closed}
   \<and> (match_canonical canonical raw = None \<and> map_of aliases raw = None \<longrightarrow>
        normalize_branch canonical aliases raw = unknown_closed)
   \<and> set default_dataset_branches \<subseteq> set default_branch_names
   \<and> set default_branch_names = (\<Union>c \<in> set (clusters DEFAULT_DATA). set (branches c))
   \<and> length default_branch_names = 25 \<and> distinct default_branch_names
   \<and> unknown_closed \<in> set default_branch_names"
proof (intro conjI impI)
  show "\<forall>r \<in> set (rows (clean_stream cfg ls)).
      out_branch r \<in> set (canonical_branches cfg) \<union> {unknown_closed}
      \<and> ctx_branch (out_context r) \<in> {None, Some (out_branch r)}"
  proof (rule rows_invariant)
    fix ctx lf r
    assume "correct_row cfg ctx lf = Some r"
    then show "out_branch r \<in> set (canonical_branches cfg) \<union> {unknown_closed}
      \<and> ctx_branch (out_context r) \<in> {None, Some (out_branch r)}"
      by (simp only: correct_row_branch correct_row_context_branch simp_thms)
  qed
next
  show "normalize_branch canonical aliases raw \<in> set canonical \<union> {unknown_closed}"
    by (rule normalize_branch_closed)
next
  assume "match_canonical canonical raw = None \<and> map_of aliases raw = None"
  then show "normalize_branch canonical aliases raw = unknown_closed"
    by (simp add: normalize_branch_def)
next
  show "unknown_closed \<in> set default_branch_names"
    by (simp add: default_branch_names_eq unknown_closed_def)
qed (rule default_dataset_closed default_names_union default_names_count default_names_distinct)+

theorem branch_closure_witness:
  "map out_branch (rows (clean_stream demo_cfg alias_lines))
     = [''Zalka'', unknown_closed, unknown_closed]
   \<and> list_all
        (\<lambda>r. out_branch r \<in> set (canonical_branches demo_cfg) \<union> {unknown_closed}
             \<and> ctx_branch (out_context r) \<in> {None, Some (out_branch r)})
        (rows (clean_stream demo_cfg alias_lines))
   \<and> map_of (alias_table demo_cfg) ''Zalka.'' = Some ''Zalka''
   \<and> normalize_branch (canonical_branches demo_cfg) (alias_table demo_cfg) ''Zalka.'' = ''Zalka''
   \<and> map_of (alias_table demo_cfg) ''ZALKA 2'' = Some ''Zalka New''
   \<and> ''Zalka New'' \<notin> set (canonical_branches demo_cfg)
   \<and> normalize_branch (canonical_branches demo_cfg) (alias_table demo_cfg) ''ZALKA 2''
       = unknown_closed
   \<and> match_canonical (canonical_branches demo_cfg) ''Hamra'' = None
   \<and> map_of (alias_table demo_cfg) ''Hamra'' = None
   \<and> normalize_branch (canonical_branches demo_cfg) (alias_table demo_cfg) ''Hamra''
       = unknown_closed"
proof -
  have cb: "canonical_branches demo_cfg = default_branch_names"
    by (simp add: demo_cfg_def)
  have out: "map out_branch (rows (clean_stream demo_cfg alias_lines))
     = [''Zalka'', unknown_closed, unknown_closed]"
    by (simp add: alias_stream(1) branch_row_def)
  have aliases: "map_of (alias_table demo_cfg) ''Zalka.'' = Some ''Zalka''"
    "map_of (alias_table demo_cfg) ''ZALKA 2'' = Some ''Zalka New''"
    "map_of (alias_table demo_cfg) ''Hamra'' = None"
    by (simp_all add: demo_cfg_def)
  have foreign: "''Zalka New'' \<notin> set (canonical_branches demo_cfg)"
    unfolding cb default_branch_names_eq by simp
  have "match_canonical default_branch_names ''Hamra'' = None"
    unfolding default_branch_names_eq match_canonical_def by code_simp
  then have miss: "match_canonical (canonical_branches demo_cfg) ''Hamra'' = None"
    by (simp only: cb)
  have norm: "normalize_branch (canonical_branches demo_cfg) (alias_table demo_cfg) ''Zalka.''
      = ''Zalka''"
    "normalize_branch (canonical_branches demo_cfg) (alias_table demo_cfg) ''ZALKA 2''
      = unknown_closed"
    by (simp_all add: alias_normalize unknown_closed_def)
  note inst = branch_closure
         [of demo_cfg alias_lines "canonical_branches demo_cfg" "alias_table demo_cfg" "''Hamra''"]
  from inst
  have "\<forall>r \<in> set (rows (clean_stream demo_cfg alias_lines)).
      out_branch r \<in> set (canonical_branches demo_cfg) \<union> {unknown_closed}
      \<and> ctx_branch (out_context r) \<in> {None, Some (out_branch r)}"
    by blast
  then have closed: "list_all
        (\<lambda>r. out_branch r \<in> set (canonical_branches demo_cfg) \<union> {unknown_closed}
             \<and> ctx_branch (out_context r) \<in> {None, Some (out_branch r)})
        (rows (clean_stream demo_cfg alias_lines))"
    by (simp only: list_all_iff)
  from inst miss aliases(3)
  have bucket: "normalize_branch (canonical_branches demo_cfg) (alias_table demo_cfg) ''Hamra''
      = unknown_closed"
    by blast
  from out closed aliases foreign norm miss bucket show ?thesis by blast
qed

subsection \<open>Claim C1\<close>

text \<open>
  C1.  For every leaf row of every assembled table, after the Derived-Field Corrector has
  run, \<open>TrueRevenue\<close> equals \<open>TotalCost + TotalProfit\<close> exactly.  It is recomputed this way
  for every row, large aggregate or not, and never taken from the source's Total Price:
  changing that field of a leaf changes the row's \<open>TotalPrice\<close> column and nothing else.
\<close>

theorem revenue_invariant:
  "(\<forall>r \<in> set (rows (clean_stream cfg ls)). TrueRevenue r = TotalCost r + TotalProfit r)
   \<and> (correct_row cfg ctx lf = Some r' \<longrightarrow>
        TrueRevenue r' = TotalCost r' + TotalProfit r'
        \<and> correct_row cfg ctx (lf\<lparr>leaf_total_price := Some p\<rparr>) = Some (r'\<lparr>TotalPrice := p\<rparr>))"
proof (intro conjI impI)
  show "\<forall>r \<in> set (rows (clean_stream cfg ls)). TrueRevenue r = TotalCost r + TotalProfit r"
    by (rule rows_invariant) (rule correct_row_revenue)
qed (simp_all add: correct_row_revenue correct_row_total_price)

theorem revenue_invariant_witness:
  "rows (clean_stream demo_cfg demo_lines) = [demo_row]
   \<and> TrueRevenue demo_row = TotalCost demo_row + TotalProfit demo_row
   \<and> TotalPrice demo_row = 999 \<and> TrueRevenue demo_row = 1500000
   \<and> correct_row demo_cfg
         \<lparr>ctx_branch = Some ''ZALKA'', ctx_service = Some ''TAKE AWAY'', ctx_category = None,
          ctx_section = None\<rparr> demo_leaf = Some demo_row
   \<and> correct_row demo_cfg
         \<lparr>ctx_branch = Some ''ZALKA'', ctx_service = Some ''TAKE AWAY'', ctx_category = None,
          ctx_section = None\<rparr> (demo_leaf\<lparr>leaf_total_price := Some 1500000\<rparr>)
       = Some (demo_row\<lparr>TotalPrice := 1500000\<rparr>)"
proof -
  let ?ctx = "\<lparr>ctx_branch = Some ''ZALKA'', ctx_service = Some ''TAKE AWAY'',
               ctx_category = None, ctx_section = None\<rparr>"
  note inst = revenue_invariant [of demo_cfg demo_lines ?ctx demo_leaf demo_row 1500000]
  from inst demo_stream(1)
  have sum: "TrueRevenue demo_row = TotalCost demo_row + TotalProfit demo_row"
    by simp
  from inst demo_correct
  have price: "correct_row demo_cfg ?ctx (demo_leaf\<lparr>leaf_total_price := Some 1500000\<rparr>)
       = Some (demo_row\<lparr>TotalPrice := 1500000\<rparr>)"
    by blast
  have vals: "TotalPrice demo_row = 999" "TrueRevenue demo_row = 1500000"
    by (simp_all add: demo_row_def)
  from demo_stream(1) sum vals demo_correct price show ?thesis by blast
qed

subsection \<open>Claim C6\<close>




end
